theory Spec2Isabelle
  imports Complex_Main
begin

section \<open>Values exchanged with the host framework and the vendor\<close>

text \<open>
  The module translates between the generic request and response shapes of the host
  framework and the chat-completion wire schema of the vendor. Declared string-literal
  unions of the TypeScript source are datatypes here where the source only compares or
  passes their values on, and strings where it uses them as keys of a table; objects are
  records, optional
  fields are options, and every \<^verbatim>\<open>throw\<close> is the left injection of a sum.

  Structured values (tool inputs and outputs, schemas, parsed message content) are JSON
  values. Numbers are reals: every finite double is one, and only the test against zero
  matters below.
\<close>

datatype json =
    JNull
  | JBool bool
  | JNumber real
  | JString string
  | JArray "json list"
  | JObject "(string \<times> json) list"

text \<open>
  A vendor string that may be \<^verbatim>\<open>null\<close> (message content) or missing
  altogether (the content of a streamed delta). The source passes it on with a non-null
  assertion, which erases at run time, so the three cases stay apart.
\<close>

datatype js_text = Undefined | Null | Str string

text \<open>
  The errors of the module, named as the specification names them; \<open>TypeError\<close> is
  the error of the language for reading a property of \<^verbatim>\<open>undefined\<close>.
\<close>

datatype OutputFormat = FormatJson | FormatText | FormatMedia

datatype Error =
    UnsupportedModel string
  | UnsupportedPart
  | UnsupportedOutputFormat OutputFormat
  | MalformedToolCall
  | JsonSyntaxError
  | TypeError

subsection \<open>Generic messages\<close>

datatype Role = RoleUser | RoleModel | RoleSystem | RoleTool

record Media =
  media_url :: string
  media_contentType :: "string option"

record ToolRequest =
  toolRequest_name :: "string option"
  toolRequest_ref :: "string option"
  toolRequest_input :: "json option"

record ToolResponse =
  toolResponse_name :: string
  toolResponse_ref :: "string option"
  toolResponse_output :: "json option"

datatype Part =
    TextPart js_text
  | MediaPart Media
  | ToolRequestPart ToolRequest
  | ToolResponsePart ToolResponse
  | DataPart json

record MessageData =
  msg_role :: Role
  msg_content :: "Part list"

subsection \<open>Generic request\<close>

datatype VisualDetailLevel = DetailAuto | DetailLow | DetailHigh

record OpenAiConfig =
  version :: "string option"
  temperature :: "real option"
  maxOutputTokens :: "real option"
  topK :: "real option"
  topP :: "real option"
  stopSequences :: "string list option"
  frequencyPenalty :: "real option"
  logitBias :: "(string \<times> real) list option"
  logProbs :: "bool option"
  presencePenalty :: "real option"
  seed :: "real option"
  topLogProbs :: "real option"
  user :: "string option"
  visualDetailLevel :: "VisualDetailLevel option"

record ToolDefinition =
  tool_name :: string
  tool_inputSchema :: "json option"

record OutputSpec =
  format :: "OutputFormat option"

record GenerateRequest =
  req_messages :: "MessageData list"
  req_config :: "OpenAiConfig option"
  req_tools :: "ToolDefinition list option"
  req_output :: "OutputSpec option"
  req_candidates :: "real option"

subsection \<open>Capability descriptors\<close>

record Supports =
  supports_multiturn :: bool
  supports_tools :: bool
  supports_media :: bool
  supports_systemRole :: bool
  supports_output :: "OutputFormat list option"

record ModelInfo =
  info_versions :: "string list"
  info_label :: string
  info_supports :: "Supports option"

record ModelReference =
  ref_name :: string
  ref_info :: ModelInfo
  ref_version :: "string option"

subsection \<open>Vendor request\<close>

datatype ContentPart =
    ContentPartText string
  | ContentPartImage string "VisualDetailLevel option"

record ToolCallFunction =
  function_name :: "string option"
  function_arguments :: "string option"

record ToolCall =
  call_id :: "string option"
  call_function :: "ToolCallFunction option"

datatype MessageParam =
    UserMessageParam "ContentPart list"
  | SystemMessageParam string
  | AssistantToolCallsParam "ToolCall list"
  | AssistantMessageParam string
  | ToolMessageParam string "string option"

record ChatCompletionTool =
  fn_name :: string
  fn_parameters :: "json option"

datatype ResponseFormat = ResponseJsonObject | ResponseText

text \<open>
  The request body is an object whose keys the source enumerates and deletes, so it is a
  list of keys with their values, in the order of insertion.
\<close>

datatype BodyValue =
    VUndefined
  | VString string
  | VNumber real
  | VBoolean bool
  | VStringArray "string list"
  | VMessages "MessageParam list"
  | VTools "ChatCompletionTool list"
  | VLogitBias "(string \<times> real) list"
  | VResponseFormat ResponseFormat

type_synonym Body = "(string \<times> BodyValue) list"

subsection \<open>Vendor response\<close>

text \<open>
  The finish reason of a vendor choice is the string the vendor sent, \<^verbatim>\<open>null\<close> or
  missing: the source notes that the vendor returns values outside the declared union,
  and looks the string up as it comes. The finish reason of a candidate is one of the five
  names of the host framework, or, when the lookup finds a property that every object
  inherits, that inherited value under its name (a function or the prototype object, no
  finish reason at all).
\<close>

datatype FinishReason =
    FinishStop
  | FinishLength
  | FinishBlocked
  | FinishOther
  | FinishUnknown
  | InheritedProperty string

record ChatCompletionMessage =
  message_content :: js_text
  message_tool_calls :: "ToolCall list option"

record Choice =
  choice_index :: nat
  choice_finish_reason :: js_text
  choice_message :: ChatCompletionMessage

record Delta =
  delta_content :: js_text
  delta_tool_calls :: "ToolCall list option"

record ChunkChoice =
  chunk_index :: nat
  chunk_finish_reason :: js_text
  chunk_delta :: Delta

record Usage =
  prompt_tokens :: "nat option"
  completion_tokens :: "nat option"
  total_tokens :: "nat option"

record ChatCompletion =
  completion_choices :: "Choice list"
  completion_usage :: "Usage option"

record ChatCompletionChunk =
  chunk_choices :: "ChunkChoice list option"

subsection \<open>Generic response\<close>

record CandidateData =
  cand_index :: nat
  cand_finishReason :: FinishReason
  cand_message :: MessageData

record GenerationUsage =
  inputTokens :: "nat option"
  outputTokens :: "nat option"
  totalTokens :: "nat option"

record GenerateResponseData =
  resp_candidates :: "CandidateData list"
  resp_usage :: GenerationUsage
  resp_custom :: ChatCompletion

record GenerateResponseChunkData =
  cb_index :: nat
  cb_content :: "Part list"

section \<open>Built-ins and host helpers the module calls\<close>

text \<open>
  \<^verbatim>\<open>JSON.parse\<close> and \<^verbatim>\<open>JSON.stringify\<close> are built-ins of the language, not code
  of the module: every function below that reaches one of them takes it as a parameter,
  \<open>parse\<close> returning \<open>None\<close> where the built-in throws a syntax error and
  \<open>stringify\<close> returning \<open>None\<close> where it returns \<^verbatim>\<open>undefined\<close>.
  \<^verbatim>\<open>JSON.parse\<close> first converts its argument to a string, which turns \<^verbatim>\<open>null\<close>
  and \<^verbatim>\<open>undefined\<close> into their names.
\<close>

definition JSON_parse :: "(string \<Rightarrow> json option) \<Rightarrow> js_text \<Rightarrow> json option" where
  "JSON_parse parse t =
     (case t of
        Undefined \<Rightarrow> parse ''undefined''
      | Null \<Rightarrow> parse ''null''
      | Str s \<Rightarrow> parse s)"

text \<open>
  The source keeps its two tables (the finish reasons and the supported models) in plain
  objects and reads them with \<^verbatim>\<open>table[key]\<close>. Such a read finds the own properties
  of the object, and behind them the properties every object inherits from
  \<^verbatim>\<open>Object.prototype\<close>, all of them functions or objects and so truthy. A key that
  is not a string is first converted to one.
\<close>

definition Object_prototype_keys :: "string list" where
  "Object_prototype_keys =
     [''constructor'', ''__defineGetter__'', ''__defineSetter__'', ''hasOwnProperty'',
      ''__lookupGetter__'', ''__lookupSetter__'', ''isPrototypeOf'', ''propertyIsEnumerable'',
      ''toString'', ''valueOf'', ''__proto__'', ''toLocaleString'']"

datatype 'a property = Own 'a | Inherited | Absent

definition get_property :: "(string \<Rightarrow> 'a option) \<Rightarrow> string \<Rightarrow> 'a property" where
  "get_property own key =
     (case own key of
        Some v \<Rightarrow> Own v
      | None \<Rightarrow> if key \<in> set Object_prototype_keys then Inherited else Absent)"

definition property_key :: "js_text \<Rightarrow> string" where
  "property_key t =
     (case t of Undefined \<Rightarrow> ''undefined'' | Null \<Rightarrow> ''null'' | Str s \<Rightarrow> s)"

text \<open>
  Modelled from the spec: the host framework's \<^verbatim>\<open>Message\<close> class is not part of the
  sources. Its \<^verbatim>\<open>text()\<close> is the concatenation, in order, of the text of the parts
  (a part without text counts as the empty string), and its
  \<^verbatim>\<open>toolResponseParts()\<close> keeps the parts that carry a tool response.
\<close>

fun part_text :: "Part \<Rightarrow> string" where
  "part_text (TextPart (Str s)) = s"
| "part_text _ = []"

definition Message_text :: "MessageData \<Rightarrow> string" where
  "Message_text msg = concat (map part_text (msg_content msg))"

fun toolResponse_of :: "Part \<Rightarrow> ToolResponse option" where
  "toolResponse_of (ToolResponsePart r) = Some r"
| "toolResponse_of _ = None"

definition Message_toolResponseParts :: "MessageData \<Rightarrow> ToolResponse list" where
  "Message_toolResponseParts msg = List.map_filter toolResponse_of (msg_content msg)"

text \<open>The first error ends a \<^verbatim>\<open>map\<close> whose callback throws.\<close>

fun mapE :: "('a \<Rightarrow> Error + 'b) \<Rightarrow> 'a list \<Rightarrow> Error + 'b list" where
  "mapE f [] = Inr []"
| "mapE f (x # xs) =
     (case f x of
        Inl e \<Rightarrow> Inl e
      | Inr y \<Rightarrow> (case mapE f xs of Inl e \<Rightarrow> Inl e | Inr ys \<Rightarrow> Inr (y # ys)))"

section \<open>Capability registry\<close>

definition MODELS_SUPPORTING_OPENAI_RESPONSE_FORMAT :: "string list" where
  "MODELS_SUPPORTING_OPENAI_RESPONSE_FORMAT =
     [''gpt-4o'', ''gpt-4o-2024-05-13'', ''gpt-4o-mini'', ''gpt-4o-mini-2024-07-18'',
      ''gpt-4-turbo'', ''gpt-4-turbo-2024-04-09'', ''gpt-4-turbo-preview'',
      ''gpt-4-0125-preview'', ''gpt-4-1106-preview'', ''gpt-3.5-turbo-0125'',
      ''gpt-3.5-turbo'', ''gpt-3.5-turbo-1106'']"

text \<open>
  \<^verbatim>\<open>modelRef\<close> returns its argument; none of the six descriptors sets the optional
  \<^verbatim>\<open>version\<close> field of a model reference.
\<close>

definition modelRef :: "string \<Rightarrow> string list \<Rightarrow> string \<Rightarrow> bool \<Rightarrow> bool \<Rightarrow> OutputFormat list \<Rightarrow> ModelReference" where
  "modelRef n vs l t m out =
     \<lparr>ref_name = n,
      ref_info = \<lparr>info_versions = vs, info_label = l,
                  info_supports = Some \<lparr>supports_multiturn = True, supports_tools = t,
                                         supports_media = m, supports_systemRole = True,
                                         supports_output = Some out\<rparr>\<rparr>,
      ref_version = None\<rparr>"

definition gpt4o :: ModelReference where
  "gpt4o = modelRef ''openai/gpt-4o'' [''gpt-4o'', ''gpt-4o-2024-05-13'']
     ''OpenAI - GPT-4o'' True True [FormatText, FormatJson]"

definition gpt4oMini :: ModelReference where
  "gpt4oMini = modelRef ''openai/gpt-4o-mini'' [''gpt-4o-mini'', ''gpt-4o-mini-2024-07-18'']
     ''OpenAI - GPT-4o mini'' True True [FormatText, FormatJson]"

definition gpt4Turbo :: ModelReference where
  "gpt4Turbo = modelRef ''openai/gpt-4-turbo''
     [''gpt-4-turbo'', ''gpt-4-turbo-2024-04-09'', ''gpt-4-turbo-preview'',
      ''gpt-4-0125-preview'', ''gpt-4-1106-preview'']
     ''OpenAI - GPT-4 Turbo'' True True [FormatText, FormatJson]"

definition gpt4Vision :: ModelReference where
  "gpt4Vision = modelRef ''openai/gpt-4-vision''
     [''gpt-4-vision-preview'', ''gpt-4-1106-vision-preview'']
     ''OpenAI - GPT-4 Vision'' False True [FormatText]"

definition gpt4 :: ModelReference where
  "gpt4 = modelRef ''openai/gpt-4'' [''gpt-4'', ''gpt-4-0613'', ''gpt-4-32k'', ''gpt-4-32k-0613'']
     ''OpenAI - GPT-4'' True False [FormatText]"

definition gpt35Turbo :: ModelReference where
  "gpt35Turbo = modelRef ''openai/gpt-3.5-turbo''
     [''gpt-3.5-turbo-0125'', ''gpt-3.5-turbo'', ''gpt-3.5-turbo-1106'']
     ''OpenAI - GPT-3.5 Turbo'' True False [FormatJson, FormatText]"

text \<open>The own properties of \<^verbatim>\<open>SUPPORTED_GPT_MODELS\<close>.\<close>

definition SUPPORTED_GPT_MODELS :: "string \<Rightarrow> ModelReference option" where
  "SUPPORTED_GPT_MODELS =
     map_of [(''gpt-4o'', gpt4o), (''gpt-4o-mini'', gpt4oMini), (''gpt-4-turbo'', gpt4Turbo),
             (''gpt-4-vision'', gpt4Vision), (''gpt-4'', gpt4), (''gpt-3.5-turbo'', gpt35Turbo)]"

section \<open>Request builder\<close>

datatype ChatCompletionRole = OpenAiUser | OpenAiAssistant | OpenAiSystem | OpenAiTool

text \<open>
  The \<^verbatim>\<open>default\<close> branch of the source throws for a role outside the four of
  the declared type; no value of \<^typ>\<open>Role\<close> reaches it.
\<close>

fun toOpenAIRole :: "Role \<Rightarrow> ChatCompletionRole" where
  "toOpenAIRole RoleUser = OpenAiUser"
| "toOpenAIRole RoleModel = OpenAiAssistant"
| "toOpenAIRole RoleSystem = OpenAiSystem"
| "toOpenAIRole RoleTool = OpenAiTool"

definition toOpenAiTool :: "ToolDefinition \<Rightarrow> ChatCompletionTool" where
  "toOpenAiTool tool = \<lparr>fn_name = tool_name tool, fn_parameters = tool_inputSchema tool\<rparr>"

text \<open>
  \<^verbatim>\<open>if (part.text)\<close> tests the text for truthiness: an empty text is not taken, and
  such a part, having no media either, reaches the \<^verbatim>\<open>throw\<close>.
\<close>

fun toOpenAiTextAndMedia :: "Part \<Rightarrow> VisualDetailLevel option \<Rightarrow> Error + ContentPart" where
  "toOpenAiTextAndMedia (TextPart (Str s)) detail =
     (if s \<noteq> [] then Inr (ContentPartText s) else Inl UnsupportedPart)"
| "toOpenAiTextAndMedia (MediaPart m) detail =
     Inr (ContentPartImage (media_url m) detail)"
| "toOpenAiTextAndMedia _ detail = Inl UnsupportedPart"

fun toolRequest_of :: "Part \<Rightarrow> ToolRequest option" where
  "toolRequest_of (ToolRequestPart r) = Some r"
| "toolRequest_of _ = None"

text \<open>\<^verbatim>\<open>x ?? ''\<close>: only a missing value is replaced.\<close>

definition orEmpty :: "string option \<Rightarrow> string" where
  "orEmpty x = (case x of None \<Rightarrow> [] | Some s \<Rightarrow> s)"

definition assistantToolCall :: "(json option \<Rightarrow> string option) \<Rightarrow> ToolRequest \<Rightarrow> ToolCall" where
  "assistantToolCall stringify r =
     \<lparr>call_id = Some (orEmpty (toolRequest_ref r)),
      call_function = Some \<lparr>function_name = toolRequest_name r,
                            function_arguments = stringify (toolRequest_input r)\<rparr>\<rparr>"

definition toolMessage :: "(json option \<Rightarrow> string option) \<Rightarrow> ToolResponse \<Rightarrow> MessageParam" where
  "toolMessage stringify r =
     ToolMessageParam (orEmpty (toolResponse_ref r))
       (case toolResponse_output r of
          Some (JString s) \<Rightarrow> Some s
        | out \<Rightarrow> stringify out)"

text \<open>The body of the loop of \<^verbatim>\<open>toOpenAiMessages\<close>: the messages one generic message pushes.\<close>

definition toOpenAiMessage ::
  "(json option \<Rightarrow> string option) \<Rightarrow> VisualDetailLevel \<Rightarrow> MessageData \<Rightarrow> Error + MessageParam list" where
  "toOpenAiMessage stringify detail message =
     (case toOpenAIRole (msg_role message) of
        OpenAiUser \<Rightarrow>
          (case mapE (\<lambda>part. toOpenAiTextAndMedia part (Some detail)) (msg_content message) of
             Inl e \<Rightarrow> Inl e
           | Inr c \<Rightarrow> Inr [UserMessageParam c])
      | OpenAiSystem \<Rightarrow> Inr [SystemMessageParam (Message_text message)]
      | OpenAiAssistant \<Rightarrow>
          (let toolCalls = map (assistantToolCall stringify)
                             (List.map_filter toolRequest_of (msg_content message))
           in if length toolCalls > 0 then Inr [AssistantToolCallsParam toolCalls]
              else Inr [AssistantMessageParam (Message_text message)])
      | OpenAiTool \<Rightarrow> Inr (map (toolMessage stringify) (Message_toolResponseParts message)))"

fun toOpenAiMessages_loop ::
  "(json option \<Rightarrow> string option) \<Rightarrow> VisualDetailLevel \<Rightarrow> MessageData list \<Rightarrow> MessageParam list
     \<Rightarrow> Error + MessageParam list" where
  "toOpenAiMessages_loop stringify d [] openAiMsgs = Inr openAiMsgs"
| "toOpenAiMessages_loop stringify d (message # rest) openAiMsgs =
     (case toOpenAiMessage stringify d message of
        Inl e \<Rightarrow> Inl e
      | Inr pushed \<Rightarrow> toOpenAiMessages_loop stringify d rest (openAiMsgs @ pushed))"

text \<open>The detail level defaults to \<^verbatim>\<open>'auto'\<close> when the caller passes none.\<close>

definition toOpenAiMessages ::
  "(json option \<Rightarrow> string option) \<Rightarrow> MessageData list \<Rightarrow> VisualDetailLevel option
     \<Rightarrow> Error + MessageParam list" where
  "toOpenAiMessages stringify msgs detail =
     toOpenAiMessages_loop stringify
       (case detail of None \<Rightarrow> DetailAuto | Some d \<Rightarrow> d) msgs []"

text \<open>\<^verbatim>\<open>request.config?.field\<close>\<close>

definition config_field :: "(OpenAiConfig \<Rightarrow> 'a option) \<Rightarrow> GenerateRequest \<Rightarrow> 'a option" where
  "config_field field request =
     (case req_config request of None \<Rightarrow> None | Some c \<Rightarrow> field c)"

text \<open>
  \<^verbatim>\<open>request.config?.version || model.version || modelName\<close>: \<^verbatim>\<open>||\<close> passes over a
  missing string and over the empty string alike.
\<close>

definition mappedModelName :: "GenerateRequest \<Rightarrow> ModelReference \<Rightarrow> string \<Rightarrow> string" where
  "mappedModelName request model modelName =
     (case config_field version request of
        Some (c # cs) \<Rightarrow> c # cs
      | _ \<Rightarrow> (case ref_version model of
                Some (c # cs) \<Rightarrow> c # cs
              | _ \<Rightarrow> modelName))"

definition number :: "real option \<Rightarrow> BodyValue" where
  "number x = (case x of None \<Rightarrow> VUndefined | Some r \<Rightarrow> VNumber r)"

definition text_value :: "string option \<Rightarrow> BodyValue" where
  "text_value x = (case x of None \<Rightarrow> VUndefined | Some s \<Rightarrow> VString s)"

text \<open>The object literal \<^verbatim>\<open>body\<close>, its keys in the order the source writes them.\<close>

definition body_literal :: "string \<Rightarrow> MessageParam list \<Rightarrow> GenerateRequest \<Rightarrow> Body" where
  "body_literal mapped openAiMessages request =
     [(''model'', VString mapped),
      (''messages'', VMessages openAiMessages),
      (''temperature'', number (config_field temperature request)),
      (''max_tokens'', number (config_field maxOutputTokens request)),
      (''top_p'', number (config_field topP request)),
      (''stop'', (case config_field stopSequences request of
                    None \<Rightarrow> VUndefined | Some xs \<Rightarrow> VStringArray xs)),
      (''frequency_penalty'', number (config_field frequencyPenalty request)),
      (''logit_bias'', (case config_field logitBias request of
                          None \<Rightarrow> VUndefined | Some b \<Rightarrow> VLogitBias b)),
      (''logprobs'', (case config_field logProbs request of
                        None \<Rightarrow> VUndefined | Some b \<Rightarrow> VBoolean b)),
      (''presence_penalty'', number (config_field presencePenalty request)),
      (''seed'', number (config_field seed request)),
      (''top_logprobs'', number (config_field topLogProbs request)),
      (''user'', text_value (config_field user request)),
      (''tools'', (case req_tools request of
                     None \<Rightarrow> VUndefined | Some ts \<Rightarrow> VTools (map toOpenAiTool ts))),
      (''n'', number (req_candidates request))]"

text \<open>\<^verbatim>\<open>model.info.supports?.output?.includes(f)\<close>; a missing link of the chain is falsy.\<close>

definition supports_format :: "ModelReference \<Rightarrow> OutputFormat \<Rightarrow> bool" where
  "supports_format model f =
     (case info_supports (ref_info model) of
        None \<Rightarrow> False
      | Some s \<Rightarrow> (case supports_output s of None \<Rightarrow> False | Some out \<Rightarrow> f \<in> set out))"

definition requested_format :: "GenerateRequest \<Rightarrow> OutputFormat option" where
  "requested_format request =
     (case req_output request of None \<Rightarrow> None | Some out \<Rightarrow> format out)"

text \<open>
  The negotiation of the response format: the body with the directive added, the body
  as it was when nothing is to be added, or the error of the last \<^verbatim>\<open>else\<close>.
\<close>

definition negotiate_response_format ::
  "ModelReference \<Rightarrow> string \<Rightarrow> GenerateRequest \<Rightarrow> Body \<Rightarrow> Error + Body" where
  "negotiate_response_format model mapped request body =
     (case requested_format request of
        None \<Rightarrow> Inr body
      | Some response_format \<Rightarrow>
          if mapped \<in> set MODELS_SUPPORTING_OPENAI_RESPONSE_FORMAT then
            if response_format = FormatJson \<and> supports_format model FormatJson then
              Inr (body @ [(''response_format'', VResponseFormat ResponseJsonObject)])
            else if response_format = FormatText \<and> supports_format model FormatText then
              Inr (body @ [(''response_format'', VResponseFormat ResponseText)])
            else Inl (UnsupportedOutputFormat response_format)
          else Inr body)"

fun falsy :: "BodyValue \<Rightarrow> bool" where
  "falsy VUndefined = True"
| "falsy (VString s) = (s = [])"
| "falsy (VNumber x) = (x = 0)"
| "falsy (VBoolean b) = (\<not> b)"
| "falsy _ = False"

fun emptyArray :: "BodyValue \<Rightarrow> bool" where
  "emptyArray (VStringArray xs) = (xs = [])"
| "emptyArray (VMessages xs) = (xs = [])"
| "emptyArray (VTools xs) = (xs = [])"
| "emptyArray _ = False"

text \<open>The final loop: \<^verbatim>\<open>delete body[key]\<close> for every key whose value is falsy or an empty array.\<close>

definition deleted :: "BodyValue \<Rightarrow> bool" where
  "deleted v = (if falsy v then True else emptyArray v)"

definition strip_body :: "Body \<Rightarrow> Body" where
  "strip_body body = filter (\<lambda>kv. \<not> deleted (snd kv)) body"

text \<open>
  A model name that names an inherited property (\<^verbatim>\<open>constructor\<close>,
  \<^verbatim>\<open>toString\<close>, ...) finds a truthy value and passes the test \<^verbatim>\<open>!model\<close>.
  That value has no \<^verbatim>\<open>version\<close> and no \<^verbatim>\<open>info\<close>: the version falls
  through to the model name, and the negotiation, once entered, reads
  \<^verbatim>\<open>model.info.supports\<close> for the formats json and text and ends in the
  \<open>TypeError\<close> of the language, and in the \<^verbatim>\<open>throw\<close> of the last
  \<^verbatim>\<open>else\<close> for any other format.
\<close>

definition mappedModelName_inherited :: "GenerateRequest \<Rightarrow> string \<Rightarrow> string" where
  "mappedModelName_inherited request modelName =
     (case config_field version request of
        Some (c # cs) \<Rightarrow> c # cs
      | _ \<Rightarrow> modelName)"

definition negotiate_inherited :: "string \<Rightarrow> GenerateRequest \<Rightarrow> Body \<Rightarrow> Error + Body" where
  "negotiate_inherited mapped request body =
     (case requested_format request of
        None \<Rightarrow> Inr body
      | Some response_format \<Rightarrow>
          if mapped \<in> set MODELS_SUPPORTING_OPENAI_RESPONSE_FORMAT then
            if response_format = FormatJson then Inl TypeError
            else if response_format = FormatText then Inl TypeError
            else Inl (UnsupportedOutputFormat response_format)
          else Inr body)"

text \<open>The body as it stands before the final loop.\<close>

definition toOpenAiRequestBody_built ::
  "(json option \<Rightarrow> string option) \<Rightarrow> string \<Rightarrow> GenerateRequest \<Rightarrow> Error + Body" where
  "toOpenAiRequestBody_built stringify modelName request =
     (case get_property SUPPORTED_GPT_MODELS modelName of
        Absent \<Rightarrow> Inl (UnsupportedModel modelName)
      | Own model \<Rightarrow>
          (case toOpenAiMessages stringify (req_messages request)
                  (config_field visualDetailLevel request) of
             Inl e \<Rightarrow> Inl e
           | Inr openAiMessages \<Rightarrow>
               (let mapped = mappedModelName request model modelName
                in negotiate_response_format model mapped request
                     (body_literal mapped openAiMessages request)))
      | Inherited \<Rightarrow>
          (case toOpenAiMessages stringify (req_messages request)
                  (config_field visualDetailLevel request) of
             Inl e \<Rightarrow> Inl e
           | Inr openAiMessages \<Rightarrow>
               (let mapped = mappedModelName_inherited request modelName
                in negotiate_inherited mapped request
                     (body_literal mapped openAiMessages request))))"

definition toOpenAiRequestBody ::
  "(json option \<Rightarrow> string option) \<Rightarrow> string \<Rightarrow> GenerateRequest \<Rightarrow> Error + Body" where
  "toOpenAiRequestBody stringify modelName request =
     (case toOpenAiRequestBody_built stringify modelName request of
        Inl e \<Rightarrow> Inl e
      | Inr body \<Rightarrow> Inr (strip_body body))"

section \<open>Response reducer\<close>

text \<open>The own properties of \<^verbatim>\<open>finishReasonMap\<close>.\<close>

definition finishReasonMap :: "string \<Rightarrow> FinishReason option" where
  "finishReasonMap =
     map_of [(''length'', FinishLength), (''stop'', FinishStop), (''tool_calls'', FinishStop),
             (''content_filter'', FinishBlocked)]"

text \<open>
  \<^verbatim>\<open>finishReasonMap[finish_reason] || 'other'\<close>: the four own values and the
  inherited ones are truthy and are returned; a key that finds nothing gives
  \<^verbatim>\<open>'other'\<close>.
\<close>

definition finishReason_or_other :: "js_text \<Rightarrow> FinishReason" where
  "finishReason_or_other finish_reason =
     (case get_property finishReasonMap (property_key finish_reason) of
        Own m \<Rightarrow> m
      | Inherited \<Rightarrow> InheritedProperty (property_key finish_reason)
      | Absent \<Rightarrow> FinishOther)"

text \<open>The truthiness of a string that may be missing: the empty string is falsy.\<close>

fun truthy :: "js_text \<Rightarrow> bool" where
  "truthy (Str (c # cs)) = True"
| "truthy _ = False"

text \<open>
  \<^verbatim>\<open>f.arguments ? JSON.parse(f.arguments) : f.arguments\<close> inside \<^verbatim>\<open>try\<close>, the
  \<^verbatim>\<open>catch\<close> assigning the raw arguments.
\<close>

definition toolCall_args :: "(string \<Rightarrow> json option) \<Rightarrow> string option \<Rightarrow> json option" where
  "toolCall_args parse arguments =
     (case arguments of
        None \<Rightarrow> None
      | Some s \<Rightarrow>
          if s \<noteq> [] then (case parse s of Some v \<Rightarrow> Some v | None \<Rightarrow> Some (JString s))
          else Some (JString s))"

definition fromOpenAiToolCall :: "(string \<Rightarrow> json option) \<Rightarrow> ToolCall \<Rightarrow> Error + Part" where
  "fromOpenAiToolCall parse toolCall =
     (case call_function toolCall of
        None \<Rightarrow> Inl MalformedToolCall
      | Some f \<Rightarrow>
          Inr (ToolRequestPart
                 \<lparr>toolRequest_name = function_name f,
                  toolRequest_ref = call_id toolCall,
                  toolRequest_input = toolCall_args parse (function_arguments f)\<rparr>))"

text \<open>\<^verbatim>\<open>tool_calls?.map(fromOpenAiToolCall)\<close>\<close>

definition toolRequestParts_of ::
  "(string \<Rightarrow> json option) \<Rightarrow> ToolCall list option \<Rightarrow> Error + Part list option" where
  "toolRequestParts_of parse tool_calls =
     (case tool_calls of
        None \<Rightarrow> Inr None
      | Some tcs \<Rightarrow>
          (case mapE (fromOpenAiToolCall parse) tcs of Inl e \<Rightarrow> Inl e | Inr ps \<Rightarrow> Inr (Some ps)))"

text \<open>\<^verbatim>\<open>[jsonMode ? { data: JSON.parse(content!) } : { text: content! }]\<close>\<close>

definition content_of :: "(string \<Rightarrow> json option) \<Rightarrow> bool \<Rightarrow> js_text \<Rightarrow> Error + Part list" where
  "content_of parse jsonMode content =
     (if jsonMode then
        (case JSON_parse parse content of
           None \<Rightarrow> Inl JsonSyntaxError
         | Some v \<Rightarrow> Inr [DataPart v])
      else Inr [TextPart content])"

definition candidate :: "nat \<Rightarrow> FinishReason \<Rightarrow> Part list \<Rightarrow> CandidateData" where
  "candidate i r c =
     \<lparr>cand_index = i, cand_finishReason = r,
      cand_message = \<lparr>msg_role = RoleModel, msg_content = c\<rparr>\<rparr>"

definition fromOpenAiChoice :: "(string \<Rightarrow> json option) \<Rightarrow> Choice \<Rightarrow> bool \<Rightarrow> Error + CandidateData" where
  "fromOpenAiChoice parse choice jsonMode =
     (case toolRequestParts_of parse (message_tool_calls (choice_message choice)) of
        Inl e \<Rightarrow> Inl e
      | Inr toolRequestParts \<Rightarrow>
          (let finishReason = finishReason_or_other (choice_finish_reason choice);
               content =
                 (case toolRequestParts of
                    Some (p # ps) \<Rightarrow> Inr (p # ps)
                  | _ \<Rightarrow> content_of parse jsonMode (message_content (choice_message choice)))
           in (case content of
                 Inl e \<Rightarrow> Inl e
               | Inr c \<Rightarrow> Inr (candidate (choice_index choice) finishReason c))))"

definition fromOpenAiChunkChoice ::
  "(string \<Rightarrow> json option) \<Rightarrow> ChunkChoice \<Rightarrow> bool \<Rightarrow> Error + CandidateData" where
  "fromOpenAiChunkChoice parse choice jsonMode =
     (case toolRequestParts_of parse (delta_tool_calls (chunk_delta choice)) of
        Inl e \<Rightarrow> Inl e
      | Inr toolRequestParts \<Rightarrow>
          (let finishReason =
                 (if truthy (chunk_finish_reason choice)
                  then finishReason_or_other (chunk_finish_reason choice)
                  else FinishUnknown);
               content =
                 (case toolRequestParts of
                    Some ps \<Rightarrow> Inr ps
                  | None \<Rightarrow> content_of parse jsonMode (delta_content (chunk_delta choice)))
           in (case content of
                 Inl e \<Rightarrow> Inl e
               | Inr c \<Rightarrow> Inr (candidate (chunk_index choice) finishReason c))))"

section \<open>Runner\<close>

text \<open>
  The vendor client is the transport, outside the module: what it answers to a body is a
  parameter. A streamed request yields the fragments in order and then the final
  consolidated completion; a plain request yields the completion.
\<close>

record Client =
  client_stream :: "Body \<Rightarrow> ChatCompletionChunk list \<times> ChatCompletion"
  client_create :: "Body \<Rightarrow> ChatCompletion"

text \<open>
  \<^verbatim>\<open>chunk.choices?.forEach\<close>: each choice is converted by
  \<^verbatim>\<open>fromOpenAiChunkChoice(chunk)\<close>, the second parameter left at its default
  \<^verbatim>\<open>false\<close>, and handed to the streaming callback. The calls of the callback are
  collected in a log; a conversion that throws ends the run with the calls made so far.
\<close>

fun forEachChoice ::
  "(string \<Rightarrow> json option) \<Rightarrow> ChunkChoice list \<Rightarrow> GenerateResponseChunkData list
     \<Rightarrow> GenerateResponseChunkData list \<times> Error option" where
  "forEachChoice parse [] called = (called, None)"
| "forEachChoice parse (chunk # rest) called =
     (case fromOpenAiChunkChoice parse chunk False of
        Inl e \<Rightarrow> (called, Some e)
      | Inr c \<Rightarrow>
          forEachChoice parse rest
            (called @ [\<lparr>cb_index = cand_index c, cb_content = msg_content (cand_message c)\<rparr>]))"

definition choices_or_none :: "ChatCompletionChunk \<Rightarrow> ChunkChoice list" where
  "choices_or_none chunk = (case chunk_choices chunk of None \<Rightarrow> [] | Some cs \<Rightarrow> cs)"

fun forAwaitChunks ::
  "(string \<Rightarrow> json option) \<Rightarrow> ChatCompletionChunk list \<Rightarrow> GenerateResponseChunkData list
     \<Rightarrow> GenerateResponseChunkData list \<times> Error option" where
  "forAwaitChunks parse [] called = (called, None)"
| "forAwaitChunks parse (chunk # rest) called =
     (case forEachChoice parse (choices_or_none chunk) called of
        (called', Some e) \<Rightarrow> (called', Some e)
      | (called', None) \<Rightarrow> forAwaitChunks parse rest called')"

definition jsonMode_of :: "GenerateRequest \<Rightarrow> bool" where
  "jsonMode_of request = (requested_format request = Some FormatJson)"

definition usage_of :: "ChatCompletion \<Rightarrow> GenerationUsage" where
  "usage_of response =
     (case completion_usage response of
        None \<Rightarrow> \<lparr>inputTokens = None, outputTokens = None, totalTokens = None\<rparr>
      | Some u \<Rightarrow> \<lparr>inputTokens = prompt_tokens u, outputTokens = completion_tokens u,
                    totalTokens = total_tokens u\<rparr>)"

definition toResponseData ::
  "(string \<Rightarrow> json option) \<Rightarrow> GenerateRequest \<Rightarrow> ChatCompletion \<Rightarrow> Error + GenerateResponseData" where
  "toResponseData parse request response =
     (case mapE (\<lambda>c. fromOpenAiChoice parse c (jsonMode_of request)) (completion_choices response) of
        Inl e \<Rightarrow> Inl e
      | Inr cs \<Rightarrow>
          Inr \<lparr>resp_candidates = cs, resp_usage = usage_of response, resp_custom = response\<rparr>)"

text \<open>
  The runner returns the calls it made of the streaming callback together with its
  result. \<open>streaming\<close> says whether a streaming callback was passed.
\<close>

definition gptRunner ::
  "(json option \<Rightarrow> string option) \<Rightarrow> (string \<Rightarrow> json option) \<Rightarrow> string \<Rightarrow> Client
     \<Rightarrow> GenerateRequest \<Rightarrow> bool
     \<Rightarrow> GenerateResponseChunkData list \<times> (Error + GenerateResponseData)" where
  "gptRunner stringify parse name client request streaming =
     (case toOpenAiRequestBody stringify name request of
        Inl e \<Rightarrow> ([], Inl e)
      | Inr body \<Rightarrow>
          if streaming then
            (case client_stream client (body @ [(''stream'', VBoolean True)]) of
               (chunks, final) \<Rightarrow>
                 (case forAwaitChunks parse chunks [] of
                    (called, Some e) \<Rightarrow> (called, Inl e)
                  | (called, None) \<Rightarrow> (called, toResponseData parse request final)))
          else ([], toResponseData parse request (client_create client body)))"

section \<open>Example inputs\<close>

text \<open>
  The examples instantiate the two built-ins with functions that agree with
  \<^verbatim>\<open>JSON.parse\<close> and \<^verbatim>\<open>JSON.stringify\<close> on the texts and values the examples use:
  the three texts listed parse to the values given, and the empty text,
  \<^verbatim>\<open>not json\<close> and \<^verbatim>\<open>Hello\<close> are rejected, as the built-in rejects
  them. The examples depend on no other text or value.
\<close>

definition sample_parse :: "string \<Rightarrow> json option" where
  \<open>sample_parse s =
     (if s = ''{"x":1}'' then Some (JObject [(''x'', JNumber 1)])
      else if s = ''{"a":1}'' then Some (JObject [(''a'', JNumber 1)])
      else if s = ''null'' then Some JNull
      else None)\<close>

definition sample_stringify :: "json option \<Rightarrow> string option" where
  "sample_stringify v =
     (case v of
        Some JNull \<Rightarrow> Some ''null''
      | Some (JBool True) \<Rightarrow> Some ''true''
      | Some (JBool False) \<Rightarrow> Some ''false''
      | Some (JArray []) \<Rightarrow> Some ''[]''
      | Some (JObject []) \<Rightarrow> Some ''{}''
      | _ \<Rightarrow> None)"

definition no_config :: OpenAiConfig where
  "no_config =
     \<lparr>version = None, temperature = None, maxOutputTokens = None, topK = None, topP = None,
      stopSequences = None, frequencyPenalty = None, logitBias = None, logProbs = None,
      presencePenalty = None, seed = None, topLogProbs = None, user = None,
      visualDetailLevel = None\<rparr>"

definition hello :: "MessageData list" where
  "hello = [\<lparr>msg_role = RoleUser, msg_content = [TextPart (Str ''Hello'')]\<rparr>]"

definition example_request :: "OpenAiConfig option \<Rightarrow> OutputFormat option \<Rightarrow> GenerateRequest" where
  "example_request c f =
     \<lparr>req_messages = hello, req_config = c, req_tools = None,
      req_output = Some \<lparr>format = f\<rparr>, req_candidates = None\<rparr>"

definition tuned_config :: OpenAiConfig where
  "tuned_config =
     no_config\<lparr>temperature := Some 0, maxOutputTokens := Some 100, stopSequences := Some []\<rparr>"

definition lookup_call :: "string \<Rightarrow> string \<Rightarrow> ToolCall" where
  "lookup_call i arguments =
     \<lparr>call_id = Some i,
      call_function = Some \<lparr>function_name = Some ''lookup'', function_arguments = Some arguments\<rparr>\<rparr>"

definition example_choice ::
  "js_text \<Rightarrow> js_text \<Rightarrow> ToolCall list option \<Rightarrow> Choice" where
  "example_choice r c tcs =
     \<lparr>choice_index = 0, choice_finish_reason = r,
      choice_message = \<lparr>message_content = c, message_tool_calls = tcs\<rparr>\<rparr>"

definition example_chunk ::
  "js_text \<Rightarrow> js_text \<Rightarrow> ToolCall list option \<Rightarrow> ChunkChoice" where
  "example_chunk r c tcs =
     \<lparr>chunk_index = 0, chunk_finish_reason = r,
      chunk_delta = \<lparr>delta_content = c, delta_tool_calls = tcs\<rparr>\<rparr>"

definition example_completion :: ChatCompletion where
  \<open>example_completion =
     \<lparr>completion_choices = [example_choice (Str ''stop'') (Str ''{"a":1}'') None],
      completion_usage = Some \<lparr>prompt_tokens = Some 9, completion_tokens = Some 5,
                               total_tokens = Some 14\<rparr>\<rparr>\<close>

definition example_stream :: "ChatCompletionChunk list" where
  \<open>example_stream =
     [\<lparr>chunk_choices = Some [example_chunk Null (Str ''{"a":'') None]\<rparr>,
      \<lparr>chunk_choices = Some [example_chunk (Str ''stop'') (Str ''1}'') None]\<rparr>]\<close>

definition example_client :: Client where
  "example_client =
     \<lparr>client_stream = (\<lambda>body. (example_stream, example_completion)),
      client_create = (\<lambda>body. example_completion)\<rparr>"

definition example_conversation :: "MessageData list" where
  "example_conversation =
     [\<lparr>msg_role = RoleSystem, msg_content = [TextPart (Str ''Be ''), TextPart (Str ''brief'')]\<rparr>,
      \<lparr>msg_role = RoleUser, msg_content = [TextPart (Str ''Hello'')]\<rparr>,
      \<lparr>msg_role = RoleModel, msg_content = [TextPart (Str ''Hi''), TextPart (Str '' there'')]\<rparr>]"

definition empty_user_text :: "MessageData list" where
  "empty_user_text = [\<lparr>msg_role = RoleUser, msg_content = [TextPart (Str [])]\<rparr>]"

definition request_of :: "MessageData list \<Rightarrow> GenerateRequest" where
  "request_of msgs =
     \<lparr>req_messages = msgs, req_config = None, req_tools = None, req_output = None,
      req_candidates = None\<rparr>"

section \<open>Auxiliary notions\<close>

text \<open>
  What one streamed choice hands to the streaming callback, when its conversion does not
  throw: the index and the content of the candidate, converted with \<open>jsonMode\<close> false.
\<close>

definition delivered :: "(string \<Rightarrow> json option) \<Rightarrow> ChunkChoice \<Rightarrow> GenerateResponseChunkData option" where
  "delivered parse chunk =
     (case fromOpenAiChunkChoice parse chunk False of
        Inl e \<Rightarrow> None
      | Inr c \<Rightarrow> Some \<lparr>cb_index = cand_index c, cb_content = msg_content (cand_message c)\<rparr>)"

definition is_delivered :: "GenerateResponseChunkData option \<Rightarrow> bool" where
  "is_delivered x = (x \<noteq> None)"

text \<open>
  The round trip of the specification supposes a vendor that answers with the content it
  was sent: each vendor message of the body comes back as a choice whose content is the
  text of that message (for a user message, the texts of its content items in order),
  with no tool calls. The echoing client answers every body so.
\<close>

fun content_text :: "ContentPart \<Rightarrow> string" where
  "content_text (ContentPartText s) = s"
| "content_text (ContentPartImage u d) = []"

fun echoed_text :: "MessageParam \<Rightarrow> string" where
  "echoed_text (UserMessageParam cs) = concat (map content_text cs)"
| "echoed_text (SystemMessageParam s) = s"
| "echoed_text (AssistantMessageParam s) = s"
| "echoed_text (AssistantToolCallsParam tcs) = []"
| "echoed_text (ToolMessageParam i c) = orEmpty c"

definition echo :: "MessageParam \<Rightarrow> Choice" where
  "echo m =
     \<lparr>choice_index = 0, choice_finish_reason = Str ''stop'',
      choice_message = \<lparr>message_content = Str (echoed_text m), message_tool_calls = None\<rparr>\<rparr>"

definition echo_completion :: "Body \<Rightarrow> ChatCompletion" where
  "echo_completion body =
     \<lparr>completion_choices =
        (case map_of body ''messages'' of Some (VMessages ms) \<Rightarrow> map echo ms | _ \<Rightarrow> []),
      completion_usage = None\<rparr>"

definition echo_client :: Client where
  "echo_client =
     \<lparr>client_stream = (\<lambda>body. ([], echo_completion body)),
      client_create = echo_completion\<rparr>"

text \<open>
  A message of text parts only: every part carries a text; the texts of a user message
  are non-empty; the role is not \<^verbatim>\<open>tool\<close>.
\<close>

fun is_text :: "Part \<Rightarrow> bool" where
  "is_text (TextPart (Str s)) = True"
| "is_text _ = False"

fun is_nonempty_text :: "Part \<Rightarrow> bool" where
  "is_nonempty_text (TextPart (Str s)) = (s \<noteq> [])"
| "is_nonempty_text _ = False"

definition text_only :: "MessageData \<Rightarrow> bool" where
  "text_only m =
     (case msg_role m of
        RoleUser \<Rightarrow> list_all is_nonempty_text (msg_content m)
      | RoleModel \<Rightarrow> list_all is_text (msg_content m)
      | RoleSystem \<Rightarrow> list_all is_text (msg_content m)
      | RoleTool \<Rightarrow> False)"

section \<open>Tool calls\<close>

text \<open>
  Claim C3. A tool-call entry whose function payload is absent is not converted: the
  conversion fails with the error \<open>MalformedToolCall\<close>.
\<close>

theorem fromOpenAiToolCall_missing_function:
  "call_function toolCall = None \<Longrightarrow> fromOpenAiToolCall parse toolCall = Inl MalformedToolCall"
  by (simp add: fromOpenAiToolCall_def)

theorem fromOpenAiToolCall_missing_function_witness:
  "fromOpenAiToolCall sample_parse \<lparr>call_id = Some ''call_1'', call_function = None\<rparr> =
     Inl MalformedToolCall"
  using fromOpenAiToolCall_missing_function
          [of "\<lparr>call_id = Some ''call_1'', call_function = None\<rparr>" sample_parse]
  by simp

text \<open>
  Claim C2. A tool-call entry with a function payload is converted to a tool-request
  part, never to an error. When the payload carries an arguments string, the input of
  the part is the parsed value if the string parses as JSON and the string itself if it
  does not; a payload without arguments gives a part without input. The one assumption
  on the parser is that it rejects the empty text, as \<^verbatim>\<open>JSON.parse\<close> does: the
  source does not hand the empty string to the parser and passes it on as it is.
\<close>

theorem fromOpenAiToolCall_arguments:
  assumes "parse [] = None"
    and "call_function toolCall = Some f"
  shows "\<exists>r. fromOpenAiToolCall parse toolCall = Inr (ToolRequestPart r) \<and>
             toolRequest_name r = function_name f \<and>
             toolRequest_ref r = call_id toolCall \<and>
             toolRequest_input r =
               (case function_arguments f of
                  None \<Rightarrow> None
                | Some arguments \<Rightarrow>
                    Some (case parse arguments of Some v \<Rightarrow> v | None \<Rightarrow> JString arguments))"
  using assms by (auto simp: fromOpenAiToolCall_def toolCall_args_def split: option.splits)

theorem fromOpenAiToolCall_arguments_witness:
  \<open>sample_parse [] = None \<and>
   fromOpenAiToolCall sample_parse (lookup_call ''call_1'' ''{"x":1}'') =
    Inr (ToolRequestPart
           \<lparr>toolRequest_name = Some ''lookup'', toolRequest_ref = Some ''call_1'',
            toolRequest_input = Some (JObject [(''x'', JNumber 1)])\<rparr>) \<and>
   fromOpenAiToolCall sample_parse (lookup_call ''call_2'' ''not json'') =
    Inr (ToolRequestPart
           \<lparr>toolRequest_name = Some ''lookup'', toolRequest_ref = Some ''call_2'',
            toolRequest_input = Some (JString ''not json'')\<rparr>)\<close>
  using
    fromOpenAiToolCall_arguments [of sample_parse \<open>lookup_call ''call_1'' ''{"x":1}''\<close>
      \<open>\<lparr>function_name = Some ''lookup'', function_arguments = Some ''{"x":1}''\<rparr>\<close>]
    fromOpenAiToolCall_arguments [of sample_parse \<open>lookup_call ''call_2'' ''not json''\<close>
      \<open>\<lparr>function_name = Some ''lookup'', function_arguments = Some ''not json''\<rparr>\<close>]
  by (simp add: sample_parse_def lookup_call_def fromOpenAiToolCall_def toolCall_args_def)

section \<open>Finish reasons\<close>

lemma finishReason_or_other_Str:
  "finishReason_or_other (Str s) =
     (if s = ''length'' then FinishLength
      else if s = ''stop'' then FinishStop
      else if s = ''tool_calls'' then FinishStop
      else if s = ''content_filter'' then FinishBlocked
      else if s \<in> set Object_prototype_keys then InheritedProperty s
      else FinishOther)"
  by (simp add: finishReason_or_other_def get_property_def finishReasonMap_def property_key_def)

lemma finishReason_or_other_missing:
  "finishReason_or_other Undefined = FinishOther" "finishReason_or_other Null = FinishOther"
  by (simp_all add: finishReason_or_other_def get_property_def finishReasonMap_def
      property_key_def Object_prototype_keys_def)



text \<open>
  Both conversions return whenever the choice carries no tool calls and the content is
  kept as text, so the table below speaks of candidates that exist.
\<close>

lemma fromOpenAiChoice_returns:
  "message_tool_calls (choice_message choice) = None \<Longrightarrow>
     \<exists>c. fromOpenAiChoice parse choice False = Inr c"
  by (simp add: fromOpenAiChoice_def toolRequestParts_of_def content_of_def)

lemma fromOpenAiChunkChoice_returns:
  "delta_tool_calls (chunk_delta choice) = None \<Longrightarrow>
     \<exists>c. fromOpenAiChunkChoice parse choice False = Inr c"
  by (simp add: fromOpenAiChunkChoice_def toolRequestParts_of_def content_of_def)






section \<open>Message content of a reduced choice\<close>

text \<open>
  Claim C5. A non-streaming choice without tool calls (the list missing or empty) is
  reduced, with \<open>jsonMode\<close> false, to a candidate whose content is the single text part
  holding the message content; with \<open>jsonMode\<close> true, to a candidate whose content is
  the single data part holding the parsed content, and to an error when the content does
  not parse: the raw string is not passed on.
\<close>

theorem fromOpenAiChoice_content:
  assumes "message_tool_calls (choice_message choice) = None \<or>
           message_tool_calls (choice_message choice) = Some []"
  shows "(\<exists>c. fromOpenAiChoice parse choice False = Inr c \<and>
              msg_content (cand_message c) = [TextPart (message_content (choice_message choice))]) \<and>
         (case JSON_parse parse (message_content (choice_message choice)) of
            Some v \<Rightarrow> (\<exists>c. fromOpenAiChoice parse choice True = Inr c \<and>
                           msg_content (cand_message c) = [DataPart v])
          | None \<Rightarrow> fromOpenAiChoice parse choice True = Inl JsonSyntaxError)"
  using assms
  by (auto simp: fromOpenAiChoice_def toolRequestParts_of_def content_of_def candidate_def
      split: option.splits)

theorem fromOpenAiChoice_content_witness:
  \<open>fromOpenAiChoice sample_parse (example_choice (Str ''stop'') (Str ''{"a":1}'') None) True =
     Inr (candidate 0 FinishStop [DataPart (JObject [(''a'', JNumber 1)])]) \<and>
   fromOpenAiChoice sample_parse (example_choice (Str ''stop'') (Str ''{"a":1}'') None) False =
     Inr (candidate 0 FinishStop [TextPart (Str ''{"a":1}'')]) \<and>
   fromOpenAiChoice sample_parse (example_choice (Str ''stop'') (Str ''not json'') (Some [])) True =
     Inl JsonSyntaxError\<close>
  using
    fromOpenAiChoice_content
      [of \<open>example_choice (Str ''stop'') (Str ''{"a":1}'') None\<close> sample_parse]
    fromOpenAiChoice_content
      [of \<open>example_choice (Str ''stop'') (Str ''not json'') (Some [])\<close> sample_parse]
  by (simp add: fromOpenAiChoice_def example_choice_def toolRequestParts_of_def content_of_def
      JSON_parse_def sample_parse_def finishReason_or_other_Str)

text \<open>
  Claim C10. An empty list of tool calls is treated differently by the two conversions.
  On the streaming path the content of the candidate is the converted list whatever its
  length, so an empty list gives empty content and the text branch is not taken. On the
  non-streaming path the converted list is the content only when it is not empty; an
  empty list gives the single text part, or with \<open>jsonMode\<close> the single data part (or
  the parse error).
\<close>

theorem empty_tool_calls:
  "(delta_tool_calls (chunk_delta chunk) = Some tcs \<and> mapE (fromOpenAiToolCall parse) tcs = Inr ps \<longrightarrow>
      (\<exists>c. fromOpenAiChunkChoice parse chunk jsonMode = Inr c \<and> msg_content (cand_message c) = ps)) \<and>
   (delta_tool_calls (chunk_delta chunk) = Some [] \<longrightarrow>
      (\<exists>c. fromOpenAiChunkChoice parse chunk jsonMode = Inr c \<and> msg_content (cand_message c) = [])) \<and>
   (message_tool_calls (choice_message choice) = Some tcs \<and>
    mapE (fromOpenAiToolCall parse) tcs = Inr ps \<and> ps \<noteq> [] \<longrightarrow>
      (\<exists>c. fromOpenAiChoice parse choice jsonMode = Inr c \<and> msg_content (cand_message c) = ps)) \<and>
   (message_tool_calls (choice_message choice) = Some [] \<longrightarrow>
      (\<exists>c. fromOpenAiChoice parse choice False = Inr c \<and>
           msg_content (cand_message c) = [TextPart (message_content (choice_message choice))]) \<and>
      (case JSON_parse parse (message_content (choice_message choice)) of
         Some v \<Rightarrow> (\<exists>c. fromOpenAiChoice parse choice True = Inr c \<and>
                        msg_content (cand_message c) = [DataPart v])
       | None \<Rightarrow> fromOpenAiChoice parse choice True = Inl JsonSyntaxError))"
  by (auto simp: fromOpenAiChoice_def fromOpenAiChunkChoice_def toolRequestParts_of_def
      content_of_def candidate_def split: option.splits list.splits)

theorem empty_tool_calls_witness:
  "fromOpenAiChunkChoice sample_parse (example_chunk Null (Str ''Hi'') (Some [])) False =
     Inr (candidate 0 FinishUnknown []) \<and>
   fromOpenAiChoice sample_parse (example_choice Null (Str ''Hi'') (Some [])) False =
     Inr (candidate 0 FinishOther [TextPart (Str ''Hi'')])"
  using empty_tool_calls
          [of "example_chunk Null (Str ''Hi'') (Some [])" "[]" sample_parse "[]" False
              "example_choice Null (Str ''Hi'') (Some [])"]
  by (simp add: fromOpenAiChoice_def fromOpenAiChunkChoice_def example_choice_def
      example_chunk_def toolRequestParts_of_def content_of_def finishReason_or_other_missing)

section \<open>The request body\<close>

subsection \<open>Shape of the body\<close>

lemma body_literal_keys:
  "map fst (body_literal mapped ms request) =
     [''model'', ''messages'', ''temperature'', ''max_tokens'', ''top_p'', ''stop'',
      ''frequency_penalty'', ''logit_bias'', ''logprobs'', ''presence_penalty'', ''seed'',
      ''top_logprobs'', ''user'', ''tools'', ''n'']"
  by (simp add: body_literal_def)

lemma strip_body_keys: "fst ` set (strip_body body) \<subseteq> set (map fst body)"
  by (auto simp: strip_body_def)

lemma strip_body_append: "strip_body (a @ b) = strip_body a @ strip_body b"
  by (simp add: strip_body_def)

lemma map_of_strip_body_last:
  assumes "k \<notin> set (map fst body)" and "\<not> deleted v"
  shows "map_of (strip_body (body @ [(k, v)])) k = Some v"
proof -
  have "k \<notin> fst ` set (strip_body body)"
    using assms(1) strip_body_keys [of body] by auto
  then have "map_of (strip_body body) k = None"
    by (simp add: map_of_eq_None_iff)
  then show ?thesis
    using assms(2) by (simp add: strip_body_append map_add_def) (simp add: strip_body_def)
qed

lemma negotiate_cases:
  "negotiate_response_format model mapped request body = Inr b \<Longrightarrow>
     b = body \<or> (\<exists>f. b = body @ [(''response_format'', VResponseFormat f)])"
  by (auto simp: negotiate_response_format_def split: option.splits if_splits)

lemma negotiate_inherited_cases:
  "negotiate_inherited mapped request body = Inr b \<Longrightarrow> b = body"
  by (auto simp: negotiate_inherited_def split: option.splits if_splits)

lemma get_property_own: "own key = Some v \<Longrightarrow> get_property own key = Own v"
  by (simp add: get_property_def)

lemma built_own:
  assumes "SUPPORTED_GPT_MODELS modelName = Some model"
  shows "toOpenAiRequestBody_built stringify modelName request =
           (case toOpenAiMessages stringify (req_messages request)
                   (config_field visualDetailLevel request) of
              Inl e \<Rightarrow> Inl e
            | Inr ms \<Rightarrow>
                negotiate_response_format model (mappedModelName request model modelName) request
                  (body_literal (mappedModelName request model modelName) ms request))"
  using get_property_own [of SUPPORTED_GPT_MODELS modelName model] assms
  by (simp add: toOpenAiRequestBody_built_def Let_def split: sum.splits)

lemma built_own_cases:
  assumes "SUPPORTED_GPT_MODELS modelName = Some model"
    and "toOpenAiRequestBody_built stringify modelName request = Inr built"
  obtains ms where
    "toOpenAiMessages stringify (req_messages request) (config_field visualDetailLevel request) = Inr ms"
    "negotiate_response_format model (mappedModelName request model modelName) request
       (body_literal (mappedModelName request model modelName) ms request) = Inr built"
  using assms(2) unfolding built_own [OF assms(1)]
  by (auto split: sum.splits)

lemma built_shape:
  assumes "toOpenAiRequestBody_built stringify modelName request = Inr built"
  obtains mapped ms extra where
    "toOpenAiMessages stringify (req_messages request) (config_field visualDetailLevel request) = Inr ms"
    "built = body_literal mapped ms request @ extra"
    "extra = [] \<or> (\<exists>f. extra = [(''response_format'', VResponseFormat f)])"
proof (cases "get_property SUPPORTED_GPT_MODELS modelName")
  case (Own model)
  with assms obtain ms where
    ms: "toOpenAiMessages stringify (req_messages request) (config_field visualDetailLevel request) = Inr ms"
    and n: "negotiate_response_format model (mappedModelName request model modelName) request
       (body_literal (mappedModelName request model modelName) ms request) = Inr built"
    by (auto simp: toOpenAiRequestBody_built_def Let_def split: sum.splits)
  from negotiate_cases [OF n] obtain extra where
    "built = body_literal (mappedModelName request model modelName) ms request @ extra"
    "extra = [] \<or> (\<exists>f. extra = [(''response_format'', VResponseFormat f)])"
    by auto
  with ms show ?thesis by (rule that)
next
  case Inherited
  with assms obtain ms where
    ms: "toOpenAiMessages stringify (req_messages request) (config_field visualDetailLevel request) = Inr ms"
    and n: "negotiate_inherited (mappedModelName_inherited request modelName) request
       (body_literal (mappedModelName_inherited request modelName) ms request) = Inr built"
    by (auto simp: toOpenAiRequestBody_built_def Let_def split: sum.splits)
  from negotiate_inherited_cases [OF n]
  have "built = body_literal (mappedModelName_inherited request modelName) ms request @ []"
    by simp
  with ms show ?thesis by (rule that) simp
next
  case Absent
  with assms show ?thesis by (simp add: toOpenAiRequestBody_built_def)
qed

lemma example_hello:
  "toOpenAiMessages sample_stringify hello d = Inr [UserMessageParam [ContentPartText ''Hello'']]"
  by (simp add: toOpenAiMessages_def toOpenAiMessage_def hello_def)

lemma example_built:
  "SUPPORTED_GPT_MODELS name = Some model \<Longrightarrow>
   toOpenAiRequestBody_built sample_stringify name (example_request c f) =
     negotiate_response_format model (mappedModelName (example_request c f) model name)
       (example_request c f)
       (body_literal (mappedModelName (example_request c f) model name)
          [UserMessageParam [ContentPartText ''Hello'']] (example_request c f))"
  by (simp add: built_own example_hello example_request_def)

lemma supported_gpt4o: "SUPPORTED_GPT_MODELS ''gpt-4o'' = Some gpt4o"
  by (simp add: SUPPORTED_GPT_MODELS_def)

lemma supported_gpt4: "SUPPORTED_GPT_MODELS ''gpt-4'' = Some gpt4"
  by (simp add: SUPPORTED_GPT_MODELS_def)

lemma supported_gpt4Vision: "SUPPORTED_GPT_MODELS ''gpt-4-vision'' = Some gpt4Vision"
  by (simp add: SUPPORTED_GPT_MODELS_def)

lemma example_tuned_built:
  "toOpenAiRequestBody_built sample_stringify ''gpt-4o'' (example_request (Some tuned_config) None) =
     Inr [(''model'', VString ''gpt-4o''),
          (''messages'', VMessages [UserMessageParam [ContentPartText ''Hello'']]),
          (''temperature'', VNumber 0),
          (''max_tokens'', VNumber 100),
          (''top_p'', VUndefined),
          (''stop'', VStringArray []),
          (''frequency_penalty'', VUndefined),
          (''logit_bias'', VUndefined),
          (''logprobs'', VUndefined),
          (''presence_penalty'', VUndefined),
          (''seed'', VUndefined),
          (''top_logprobs'', VUndefined),
          (''user'', VUndefined),
          (''tools'', VUndefined),
          (''n'', VUndefined)]"
  by (simp add: example_built [OF supported_gpt4o] gpt4o_def modelRef_def)
     (simp add: example_request_def tuned_config_def no_config_def mappedModelName_def config_field_def
        negotiate_response_format_def requested_format_def body_literal_def number_def text_value_def)


lemma example_final:
  "SUPPORTED_GPT_MODELS name = Some model \<Longrightarrow>
   toOpenAiRequestBody sample_stringify name (example_request (Some (no_config\<lparr>version := v\<rparr>)) f) =
     (case negotiate_response_format model
             (mappedModelName (example_request (Some (no_config\<lparr>version := v\<rparr>)) f) model name)
             (example_request (Some (no_config\<lparr>version := v\<rparr>)) f) [] of
        Inl e \<Rightarrow> Inl e
      | Inr extra \<Rightarrow>
          Inr (strip_body
                 ([(''model'', VString (mappedModelName
                                          (example_request (Some (no_config\<lparr>version := v\<rparr>)) f) model name)),
                   (''messages'', VMessages [UserMessageParam [ContentPartText ''Hello'']])] @ extra)))"
  by (simp add: toOpenAiRequestBody_def example_built)
     (simp add: negotiate_response_format_def body_literal_def example_request_def no_config_def
        config_field_def number_def text_value_def strip_body_def deleted_def
        split: option.splits)

lemma built_distinct:
  assumes "toOpenAiRequestBody_built stringify modelName request = Inr built"
  shows "distinct (map fst built)"
proof -
  from assms obtain mapped ms extra where
    "built = body_literal mapped ms request @ extra"
    "extra = [] \<or> (\<exists>f. extra = [(''response_format'', VResponseFormat f)])"
    by (rule built_shape)
  then show ?thesis
    by (auto simp: body_literal_keys)
qed

lemma strip_body_subset: "(k, v) \<in> set (strip_body body) \<longleftrightarrow> (k, v) \<in> set body \<and> \<not> deleted v"
  by (auto simp: strip_body_def)

lemma deleted_iff: "deleted v \<longleftrightarrow> falsy v \<or> emptyArray v"
  by (simp add: deleted_def)

text \<open>
  A model name that names an inherited property is not refused: the body is built under
  that name.
\<close>

lemma inherited_model_name_builds:
  "toOpenAiRequestBody sample_stringify ''constructor'' (example_request None None) =
     Inr [(''model'', VString ''constructor''),
          (''messages'', VMessages [UserMessageParam [ContentPartText ''Hello'']])]"
  by (simp add: toOpenAiRequestBody_def toOpenAiRequestBody_built_def get_property_def
      SUPPORTED_GPT_MODELS_def Object_prototype_keys_def example_hello example_request_def
      config_field_def mappedModelName_inherited_def negotiate_inherited_def
      requested_format_def body_literal_def number_def text_value_def strip_body_def
      deleted_def)

subsection \<open>Negotiation of the response format\<close>

text \<open>
  Inside the list of versions that support the directive the source does what its
  documentation says: a format the descriptor does not list is refused with
  \<open>UnsupportedOutputFormat\<close>, and a listed format (json or text) puts the matching
  directive into the body.
\<close>

lemma allow_listed_negotiation:
  assumes "SUPPORTED_GPT_MODELS modelName = Some model"
    and "toOpenAiMessages stringify (req_messages request)
           (config_field visualDetailLevel request) = Inr ms"
    and "requested_format request = Some f"
    and "mappedModelName request model modelName \<in> set MODELS_SUPPORTING_OPENAI_RESPONSE_FORMAT"
  shows "(\<not> supports_format model f \<longrightarrow>
            toOpenAiRequestBody stringify modelName request = Inl (UnsupportedOutputFormat f)) \<and>
         (supports_format model f \<and> f \<noteq> FormatMedia \<longrightarrow>
            (\<exists>body. toOpenAiRequestBody stringify modelName request = Inr body \<and>
                    map_of body ''response_format'' =
                      Some (VResponseFormat
                              (if f = FormatJson then ResponseJsonObject else ResponseText))))"
proof (intro conjI impI)
  assume "\<not> supports_format model f"
  then show "toOpenAiRequestBody stringify modelName request = Inl (UnsupportedOutputFormat f)"
    using assms
    by (auto simp: toOpenAiRequestBody_def built_own negotiate_response_format_def)
next
  let ?mapped = "mappedModelName request model modelName"
  let ?directive = "VResponseFormat (if f = FormatJson then ResponseJsonObject else ResponseText)"
  assume a: "supports_format model f \<and> f \<noteq> FormatMedia"
  then have "f = FormatJson \<or> f = FormatText" by (cases f) simp_all
  with a have "toOpenAiRequestBody stringify modelName request =
               Inr (strip_body (body_literal ?mapped ms request @ [(''response_format'', ?directive)]))"
    using assms
    by (auto simp: toOpenAiRequestBody_def built_own negotiate_response_format_def)
  moreover have "map_of (strip_body (body_literal ?mapped ms request @ [(''response_format'', ?directive)]))
                   ''response_format'' = Some ?directive"
    by (rule map_of_strip_body_last) (simp_all add: body_literal_keys deleted_def)
  ultimately show "\<exists>body. toOpenAiRequestBody stringify modelName request = Inr body \<and>
                    map_of body ''response_format'' = Some ?directive"
    by blast
qed

text \<open>
  Claim C1. A request that names an output format is to fail with
  \<open>UnsupportedOutputFormat\<close> when the resolved version is outside the list or the
  descriptor does not list the format, as the documentation of the function says
  (\<^verbatim>\<open>@throws An error ... if an unsupported output format is requested\<close>). The
  source does not: the test of the descriptor and the \<^verbatim>\<open>throw\<close> stand inside the
  test of the list, so outside the list the request for a format is dropped in silence.
  The model \<^verbatim>\<open>gpt-4\<close>, whose version is not in the list and whose descriptor does
  not list json, asked for json, gives a body of model and messages and no error; the
  same model and request with a version of the list is refused.
\<close>

theorem unsupported_format_not_rejected:
  "requested_format (example_request None (Some FormatJson)) = Some FormatJson \<and>
   ''gpt-4'' \<notin> set MODELS_SUPPORTING_OPENAI_RESPONSE_FORMAT \<and>
   \<not> supports_format gpt4 FormatJson \<and>
   toOpenAiRequestBody sample_stringify ''gpt-4'' (example_request None (Some FormatJson)) =
     Inr [(''model'', VString ''gpt-4''),
          (''messages'', VMessages [UserMessageParam [ContentPartText ''Hello'']])] \<and>
   toOpenAiRequestBody sample_stringify ''gpt-4''
     (example_request (Some (no_config\<lparr>version := Some ''gpt-4-turbo''\<rparr>)) (Some FormatJson)) =
     Inl (UnsupportedOutputFormat FormatJson)"
  by (simp add: toOpenAiRequestBody_def example_built [OF supported_gpt4]
        example_final [OF supported_gpt4])
     (simp add: negotiate_response_format_def requested_format_def example_request_def
        mappedModelName_def config_field_def body_literal_def number_def text_value_def
        MODELS_SUPPORTING_OPENAI_RESPONSE_FORMAT_def supports_format_def gpt4_def
        modelRef_def strip_body_def deleted_def no_config_def)

subsection \<open>Stripping of empty fields\<close>

text \<open>
  Claim C7. Whenever the body is built, the body returned is the built one without its
  deleted fields: a field whose value is falsy or an empty array has no key in the
  returned body (so a request without \<^verbatim>\<open>seed\<close> gives a body without the key
  \<^verbatim>\<open>seed\<close>), every field of the returned body is a field of the built one whose
  value is truthy and not an empty array, and every such field is returned.
\<close>

theorem strip_falsy_fields:
  assumes "toOpenAiRequestBody_built stringify modelName request = Inr built"
  shows "\<exists>final. toOpenAiRequestBody stringify modelName request = Inr final \<and>
           (\<forall>k v. (k, v) \<in> set built \<and> (falsy v \<or> emptyArray v) \<longrightarrow> k \<notin> fst ` set final) \<and>
           (\<forall>k v. (k, v) \<in> set final \<longrightarrow> (k, v) \<in> set built \<and> \<not> falsy v \<and> \<not> emptyArray v) \<and>
           (\<forall>k v. (k, v) \<in> set built \<and> \<not> falsy v \<and> \<not> emptyArray v \<longrightarrow> (k, v) \<in> set final) \<and>
           (config_field seed request = None \<longrightarrow> ''seed'' \<notin> fst ` set final)"
proof -
  have fin: "toOpenAiRequestBody stringify modelName request = Inr (strip_body built)"
    using assms by (simp add: toOpenAiRequestBody_def)
  have d: "distinct (map fst built)" using assms by (rule built_distinct)
  have a: "k \<notin> fst ` set (strip_body built)" if "(k, v) \<in> set built" "falsy v \<or> emptyArray v" for k v
  proof
    assume "k \<in> fst ` set (strip_body built)"
    then obtain v' where v': "(k, v') \<in> set (strip_body built)" by auto
    then have "(k, v') \<in> set built" "\<not> deleted v'" by (simp_all add: strip_body_subset)
    with d that(1) have "v' = v" by (meson eq_key_imp_eq_value)
    with \<open>\<not> deleted v'\<close> that(2) show False by (simp add: deleted_iff)
  qed
  have seed: "''seed'' \<notin> fst ` set (strip_body built)" if s: "config_field seed request = None"
  proof -
    from assms obtain mapped ms extra where
      "built = body_literal mapped ms request @ extra"
      by (rule built_shape)
    then have "(''seed'', VUndefined) \<in> set built"
      using s by (simp add: body_literal_def number_def)
    then show ?thesis using a by simp
  qed
  show ?thesis
    using fin a seed by (auto simp: strip_body_subset deleted_iff)
qed

theorem strip_falsy_fields_witness:
  "toOpenAiRequestBody sample_stringify ''gpt-4o'' (example_request (Some tuned_config) None) =
     Inr [(''model'', VString ''gpt-4o''),
          (''messages'', VMessages [UserMessageParam [ContentPartText ''Hello'']]),
          (''max_tokens'', VNumber 100)] \<and>
   config_field seed (example_request (Some tuned_config) None) = None \<and>
   ''seed'' \<notin> fst ` set [(''model'', VString ''gpt-4o''),
          (''messages'', VMessages [UserMessageParam [ContentPartText ''Hello'']]),
          (''max_tokens'', VNumber 100)]"
  using strip_falsy_fields [OF example_tuned_built]
  by (simp add: toOpenAiRequestBody_def example_tuned_built)
     (simp add: strip_body_def deleted_def config_field_def example_request_def tuned_config_def
        no_config_def)


subsection \<open>Effective model version\<close>

lemma supported_name_nonempty:
  "SUPPORTED_GPT_MODELS modelName = Some model \<Longrightarrow> modelName \<noteq> []"
  by (auto simp: SUPPORTED_GPT_MODELS_def)

lemma mappedModelName_nonempty:
  "modelName \<noteq> [] \<Longrightarrow> mappedModelName request model modelName \<noteq> []"
  by (auto simp: mappedModelName_def split: option.splits list.splits)

lemma strip_body_model:
  "mapped \<noteq> [] \<Longrightarrow>
   map_of (strip_body (body_literal mapped ms request @ extra)) ''model'' = Some (VString mapped)"
  by (simp add: strip_body_def body_literal_def deleted_def)

lemma built_model_field:
  assumes "SUPPORTED_GPT_MODELS modelName = Some model"
    and "toOpenAiRequestBody stringify modelName request = Inr body"
  shows "map_of body ''model'' = Some (VString (mappedModelName request model modelName))"
proof -
  from assms(2) obtain built where
    b: "toOpenAiRequestBody_built stringify modelName request = Inr built"
    and body: "body = strip_body built"
    by (auto simp: toOpenAiRequestBody_def split: sum.splits)
  from assms(1) b obtain ms where
    n: "negotiate_response_format model (mappedModelName request model modelName) request
       (body_literal (mappedModelName request model modelName) ms request) = Inr built"
    by (rule built_own_cases)
  have ne: "mappedModelName request model modelName \<noteq> []"
    using assms(1) by (intro mappedModelName_nonempty supported_name_nonempty)
  from negotiate_cases [OF n] obtain extra where
    "built = body_literal (mappedModelName request model modelName) ms request @ extra"
    by auto
  with body have "body = strip_body (body_literal (mappedModelName request model modelName) ms request @ extra)"
    by simp
  then show ?thesis using strip_body_model [OF ne] by simp
qed

text \<open>
  Claim C6, amended. The resolved version is the version of the request's configuration
  when that is set to a non-empty string; otherwise the version of the descriptor when
  that is set to a non-empty string; otherwise the model identifier. For a supported
  model, every body that is built carries the resolved version in its field
  \<^verbatim>\<open>model\<close>.
\<close>

theorem effective_model_version:
  "(config_field version request = Some v \<and> v \<noteq> [] \<longrightarrow>
      mappedModelName request model modelName = v) \<and>
   ((config_field version request = None \<or> config_field version request = Some []) \<and>
    ref_version model = Some v \<and> v \<noteq> [] \<longrightarrow>
      mappedModelName request model modelName = v) \<and>
   ((config_field version request = None \<or> config_field version request = Some []) \<and>
    (ref_version model = None \<or> ref_version model = Some []) \<longrightarrow>
      mappedModelName request model modelName = modelName) \<and>
   (SUPPORTED_GPT_MODELS modelName = Some model \<and>
    toOpenAiRequestBody stringify modelName request = Inr body \<longrightarrow>
      map_of body ''model'' = Some (VString (mappedModelName request model modelName)))"
  using built_model_field [of modelName model stringify request body]
  by (auto simp: mappedModelName_def split: option.splits list.splits)

theorem effective_model_version_witness:
  "toOpenAiRequestBody sample_stringify ''gpt-4o''
     (example_request (Some (no_config\<lparr>version := Some ''gpt-4o-2024-05-13''\<rparr>)) None) =
     Inr [(''model'', VString ''gpt-4o-2024-05-13''),
          (''messages'', VMessages [UserMessageParam [ContentPartText ''Hello'']])] \<and>
   mappedModelName (example_request (Some (no_config\<lparr>version := Some ''gpt-4o-2024-05-13''\<rparr>)) None)
     gpt4o ''gpt-4o'' = ''gpt-4o-2024-05-13'' \<and>
   mappedModelName (example_request (Some no_config) None)
     (gpt4o\<lparr>ref_version := Some ''gpt-4o-2024-05-13''\<rparr>) ''gpt-4o'' = ''gpt-4o-2024-05-13'' \<and>
   mappedModelName (example_request None None) gpt4o ''gpt-4o'' = ''gpt-4o''"
  using
    effective_model_version
      [where request = "example_request (Some (no_config\<lparr>version := Some ''gpt-4o-2024-05-13''\<rparr>)) None"
         and v = "''gpt-4o-2024-05-13''" and model = gpt4o and modelName = "''gpt-4o''"
         and stringify = sample_stringify
         and body = "[(''model'', VString ''gpt-4o-2024-05-13''),
                      (''messages'', VMessages [UserMessageParam [ContentPartText ''Hello'']])]"]
    effective_model_version
      [where request = "example_request (Some no_config) None"
         and v = "''gpt-4o-2024-05-13''"
         and model = "gpt4o\<lparr>ref_version := Some ''gpt-4o-2024-05-13''\<rparr>"
         and modelName = "''gpt-4o''"]
    effective_model_version
      [where request = "example_request None None" and model = gpt4o and modelName = "''gpt-4o''"]
  by (simp add: example_final [OF supported_gpt4o])
     (simp add: negotiate_response_format_def requested_format_def example_request_def
        mappedModelName_def config_field_def no_config_def gpt4o_def modelRef_def
        strip_body_def deleted_def)

text \<open>
  Claim C6 as first stated, with the override used whenever it is present, fails for an
  override that is present and empty: \<^verbatim>\<open>||\<close> passes over the empty string, and the
  body carries the model identifier, not the override.
\<close>

theorem empty_version_override_counterexample:
  "config_field version (example_request (Some (no_config\<lparr>version := Some []\<rparr>)) None) = Some [] \<and>
   toOpenAiRequestBody sample_stringify ''gpt-4o''
     (example_request (Some (no_config\<lparr>version := Some []\<rparr>)) None) =
   Inr [(''model'', VString ''gpt-4o''),
        (''messages'', VMessages [UserMessageParam [ContentPartText ''Hello'']])]"
  by (simp add: example_final [OF supported_gpt4o])
     (simp add: negotiate_response_format_def requested_format_def example_request_def
        mappedModelName_def config_field_def no_config_def gpt4o_def modelRef_def
        strip_body_def deleted_def)

section \<open>Streaming\<close>

lemma forEachChoice_log:
  "fst (forEachChoice parse cs called) =
     called @ map the (takeWhile is_delivered (map (delivered parse) cs))"
  by (induction cs arbitrary: called)
     (auto simp: delivered_def is_delivered_def split: sum.splits)

lemma forEachChoice_error:
  "snd (forEachChoice parse cs called) = None \<longleftrightarrow> list_all is_delivered (map (delivered parse) cs)"
  by (induction cs arbitrary: called)
     (auto simp: delivered_def is_delivered_def split: sum.splits)

lemma forEachChoice_append:
  "forEachChoice parse (a @ b) called =
     (case forEachChoice parse a called of
        (called', Some e) \<Rightarrow> (called', Some e)
      | (called', None) \<Rightarrow> forEachChoice parse b called')"
  by (induction a arbitrary: called) (auto split: sum.splits)

lemma forAwaitChunks_flat:
  "forAwaitChunks parse chunks called =
     forEachChoice parse (concat (map choices_or_none chunks)) called"
  by (induction chunks arbitrary: called)
     (auto simp: forEachChoice_append split: prod.splits option.splits)

lemma mapE_toolCalls_parts:
  "mapE (fromOpenAiToolCall parse) tcs = Inr ps \<Longrightarrow> p \<in> set ps \<Longrightarrow> \<exists>r. p = ToolRequestPart r"
  by (induction tcs arbitrary: ps)
     (auto simp: fromOpenAiToolCall_def split: sum.splits option.splits)

lemma mapE_toolCalls_returns:
  "\<forall>tc\<in>set tcs. call_function tc \<noteq> None \<Longrightarrow> \<exists>ps. mapE (fromOpenAiToolCall parse) tcs = Inr ps"
  by (induction tcs) (auto simp: fromOpenAiToolCall_def split: sum.splits option.splits)

lemma delivered_Some:
  assumes "delivered parse chunk = Some cb"
  shows "cb_index cb = chunk_index chunk"
    and "delta_tool_calls (chunk_delta chunk) = None \<Longrightarrow>
           cb_content cb = [TextPart (delta_content (chunk_delta chunk))]"
    and "p \<in> set (cb_content cb) \<Longrightarrow> p \<noteq> DataPart v"
  using assms
  by (auto simp: delivered_def fromOpenAiChunkChoice_def toolRequestParts_of_def content_of_def
      candidate_def split: sum.splits option.splits dest: mapE_toolCalls_parts)

lemma delivered_returns:
  assumes "\<And>tcs. delta_tool_calls (chunk_delta chunk) = Some tcs \<Longrightarrow> \<forall>tc\<in>set tcs. call_function tc \<noteq> None"
  shows "is_delivered (delivered parse chunk)"
proof (cases "delta_tool_calls (chunk_delta chunk)")
  case None
  then show ?thesis
    by (simp add: is_delivered_def delivered_def fromOpenAiChunkChoice_def toolRequestParts_of_def
        content_of_def)
next
  case (Some tcs)
  with assms have "\<forall>tc\<in>set tcs. call_function tc \<noteq> None" by simp
  from mapE_toolCalls_returns [OF this] obtain ps where "mapE (fromOpenAiToolCall parse) tcs = Inr ps" ..
  with Some show ?thesis
    by (simp add: is_delivered_def delivered_def fromOpenAiChunkChoice_def toolRequestParts_of_def)
qed

lemma takeWhile_map_the_nth:
  assumes "i < length (takeWhile is_delivered xs)"
  shows "is_delivered (xs ! i)" and "map the (takeWhile is_delivered xs) ! i = the (xs ! i)"
proof -
  from assms have "takeWhile is_delivered xs ! i = xs ! i" by (rule takeWhile_nth)
  moreover have "takeWhile is_delivered xs ! i \<in> set (takeWhile is_delivered xs)"
    using assms by simp
  then have "is_delivered (takeWhile is_delivered xs ! i)" by (rule set_takeWhileD [THEN conjunct2])
  ultimately show "is_delivered (xs ! i)" and "map the (takeWhile is_delivered xs) ! i = the (xs ! i)"
    using assms by simp_all
qed

lemma gptRunner_streaming_log:
  assumes "toOpenAiRequestBody stringify name request = Inr body"
    and "client_stream client (body @ [(''stream'', VBoolean True)]) = (chunks, final)"
  shows "fst (gptRunner stringify parse name client request True) =
           map the (takeWhile is_delivered
                      (map (delivered parse) (concat (map choices_or_none chunks))))"
proof -
  have "fst (gptRunner stringify parse name client request True) = fst (forAwaitChunks parse chunks [])"
    using assms by (simp add: gptRunner_def split: prod.splits option.splits)
  then show ?thesis by (simp add: forAwaitChunks_flat forEachChoice_log)
qed

text \<open>
  Claim C9. On the streaming path every chunk choice is converted with \<open>jsonMode\<close>
  false, whatever format the request names. The calls of the streaming callback follow
  the streamed choices in order (up to the first malformed tool call, if any); each call
  carries the index of its choice; for a choice without tool calls the content is the
  single text part holding the content of the delta; no call ever carries a data part.
  When no tool call lacks its function payload, every choice is delivered, and the result
  of the runner is the reduction of the choices of the final completion, each with
  \<open>jsonMode\<close> true exactly when the request names the format json.
\<close>

theorem streaming_callbacks_are_text:
  assumes "toOpenAiRequestBody stringify name request = Inr body"
    and "client_stream client (body @ [(''stream'', VBoolean True)]) = (chunks, final)"
    and "called = fst (gptRunner stringify parse name client request True)"
    and "fragments = concat (map choices_or_none chunks)"
  shows "length called \<le> length fragments \<and>
         (\<forall>i < length called.
            cb_index (called ! i) = chunk_index (fragments ! i) \<and>
            (delta_tool_calls (chunk_delta (fragments ! i)) = None \<longrightarrow>
               cb_content (called ! i) = [TextPart (delta_content (chunk_delta (fragments ! i)))]) \<and>
            (\<forall>p \<in> set (cb_content (called ! i)). \<forall>v. p \<noteq> DataPart v)) \<and>
         ((\<forall>c \<in> set fragments. \<forall>tcs. delta_tool_calls (chunk_delta c) = Some tcs \<longrightarrow>
              (\<forall>tc \<in> set tcs. call_function tc \<noteq> None)) \<longrightarrow>
            length called = length fragments \<and>
            snd (gptRunner stringify parse name client request True) =
              (case mapE (\<lambda>c. fromOpenAiChoice parse c
                                (case req_output request of
                                   None \<Rightarrow> False
                                 | Some out \<Rightarrow> format out = Some FormatJson))
                      (completion_choices final) of
                 Inl e \<Rightarrow> Inl e
               | Inr cs \<Rightarrow>
                   Inr \<lparr>resp_candidates = cs,
                        resp_usage = usage_of final,
                        resp_custom = final\<rparr>))"
proof (intro conjI allI impI)
  let ?ds = "map (delivered parse) fragments"
  have log: "called = map the (takeWhile is_delivered ?ds)"
    using assms by (simp add: gptRunner_streaming_log)
  show "length called \<le> length fragments"
    using length_takeWhile_le [of is_delivered ?ds] by (simp add: log)
  {
    fix i assume i: "i < length called"
    then have i': "i < length (takeWhile is_delivered ?ds)" by (simp add: log)
    with length_takeWhile_le [of is_delivered ?ds] have il: "i < length fragments" by simp
    from takeWhile_map_the_nth [OF i'] il
    have "is_delivered (delivered parse (fragments ! i))"
      and "called ! i = the (delivered parse (fragments ! i))"
      by (simp_all add: log)
    then have d: "delivered parse (fragments ! i) = Some (called ! i)"
      by (auto simp: is_delivered_def)
    show "cb_index (called ! i) = chunk_index (fragments ! i)"
      using delivered_Some(1) [OF d] .
    show "cb_content (called ! i) = [TextPart (delta_content (chunk_delta (fragments ! i)))]"
      if "delta_tool_calls (chunk_delta (fragments ! i)) = None"
      using delivered_Some(2) [OF d that] .
    show "\<forall>p \<in> set (cb_content (called ! i)). \<forall>v. p \<noteq> DataPart v"
      using delivered_Some(3) [OF d] by blast
  }
  assume wf: "\<forall>c \<in> set fragments. \<forall>tcs. delta_tool_calls (chunk_delta c) = Some tcs \<longrightarrow>
              (\<forall>tc \<in> set tcs. call_function tc \<noteq> None)"
  then have all: "list_all is_delivered ?ds"
    by (auto simp: list_all_iff intro!: delivered_returns)
  then have tw: "takeWhile is_delivered ?ds = ?ds"
    by (simp add: list_all_iff)
  show "length called = length fragments"
    unfolding log tw by simp
  from all have "snd (forAwaitChunks parse chunks []) = None"
    using assms(4) by (simp add: forAwaitChunks_flat forEachChoice_error)
  then have "snd (gptRunner stringify parse name client request True) =
              toResponseData parse request final"
    using assms(1,2) by (auto simp: gptRunner_def split: prod.splits)
  moreover have "jsonMode_of request =
                   (case req_output request of
                      None \<Rightarrow> False
                    | Some out \<Rightarrow> format out = Some FormatJson)"
    by (simp add: jsonMode_of_def requested_format_def split: option.splits)
  ultimately show "snd (gptRunner stringify parse name client request True) =
              (case mapE (\<lambda>c. fromOpenAiChoice parse c
                                (case req_output request of
                                   None \<Rightarrow> False
                                 | Some out \<Rightarrow> format out = Some FormatJson))
                      (completion_choices final) of
                 Inl e \<Rightarrow> Inl e
               | Inr cs \<Rightarrow>
                   Inr \<lparr>resp_candidates = cs,
                        resp_usage = usage_of final,
                        resp_custom = final\<rparr>)"
    by (simp add: toResponseData_def)
qed


lemma example_json_body:
  "toOpenAiRequestBody sample_stringify ''gpt-4o'' (example_request None (Some FormatJson)) =
     Inr [(''model'', VString ''gpt-4o''),
          (''messages'', VMessages [UserMessageParam [ContentPartText ''Hello'']]),
          (''response_format'', VResponseFormat ResponseJsonObject)]"
  by (simp add: toOpenAiRequestBody_def example_built [OF supported_gpt4o])
     (simp add: negotiate_response_format_def requested_format_def example_request_def
        mappedModelName_def config_field_def body_literal_def number_def text_value_def
        MODELS_SUPPORTING_OPENAI_RESPONSE_FORMAT_def supports_format_def gpt4o_def
        modelRef_def strip_body_def deleted_def)

lemma example_client_stream: "client_stream example_client body = (example_stream, example_completion)"
  by (simp add: example_client_def)

lemma example_plain_body:
  "toOpenAiRequestBody sample_stringify ''gpt-4o'' (example_request None None) =
     Inr [(''model'', VString ''gpt-4o''),
          (''messages'', VMessages [UserMessageParam [ContentPartText ''Hello'']])]"
  by (simp add: toOpenAiRequestBody_def example_built [OF supported_gpt4o])
     (simp add: negotiate_response_format_def requested_format_def example_request_def
        mappedModelName_def config_field_def body_literal_def number_def text_value_def
        gpt4o_def modelRef_def strip_body_def deleted_def)

theorem streaming_callbacks_are_text_witness:
  \<open>gptRunner sample_stringify sample_parse ''gpt-4o'' example_client
      (example_request None (Some FormatJson)) True =
    ([\<lparr>cb_index = 0, cb_content = [TextPart (Str ''{"a":'')]\<rparr>,
      \<lparr>cb_index = 0, cb_content = [TextPart (Str ''1}'')]\<rparr>],
     Inr \<lparr>resp_candidates = [candidate 0 FinishStop [DataPart (JObject [(''a'', JNumber 1)])]],
          resp_usage = \<lparr>inputTokens = Some 9, outputTokens = Some 5, totalTokens = Some 14\<rparr>,
          resp_custom = example_completion\<rparr>) \<and>
   gptRunner sample_stringify sample_parse ''gpt-4o'' example_client
      (example_request None None) True =
    ([\<lparr>cb_index = 0, cb_content = [TextPart (Str ''{"a":'')]\<rparr>,
      \<lparr>cb_index = 0, cb_content = [TextPart (Str ''1}'')]\<rparr>],
     Inr \<lparr>resp_candidates = [candidate 0 FinishStop [TextPart (Str ''{"a":1}'')]],
          resp_usage = \<lparr>inputTokens = Some 9, outputTokens = Some 5, totalTokens = Some 14\<rparr>,
          resp_custom = example_completion\<rparr>)\<close>
  using
    streaming_callbacks_are_text [OF example_json_body example_client_stream refl refl,
          of sample_parse]
    streaming_callbacks_are_text [OF example_plain_body example_client_stream refl refl,
          of sample_parse]
  by (simp add: gptRunner_def example_json_body example_plain_body example_client_stream)
     (simp add: example_stream_def example_completion_def choices_or_none_def example_chunk_def
        example_choice_def fromOpenAiChunkChoice_def fromOpenAiChoice_def toolRequestParts_of_def
        content_of_def candidate_def toResponseData_def jsonMode_of_def requested_format_def
        example_request_def usage_of_def JSON_parse_def sample_parse_def
        finishReason_or_other_Str finishReason_or_other_missing)

section \<open>Round trip of text\<close>

lemma user_parts:
  "list_all is_nonempty_text ps \<Longrightarrow>
     \<exists>cs. mapE (\<lambda>part. toOpenAiTextAndMedia part d) ps = Inr cs \<and>
          concat (map content_text cs) = concat (map part_text ps)"
proof (induction ps)
  case Nil
  then show ?case by simp
next
  case (Cons p ps)
  then obtain s where "p = TextPart (Str s)" "s \<noteq> []"
    by (cases p rule: is_nonempty_text.cases) auto
  with Cons show ?case by auto
qed

lemma no_toolRequests: "list_all is_text ps \<Longrightarrow> List.map_filter toolRequest_of ps = []"
proof (induction ps)
  case Nil
  then show ?case by (simp add: List.map_filter_simps)
next
  case (Cons p ps)
  then obtain s where "p = TextPart (Str s)"
    by (cases p rule: is_text.cases) auto
  with Cons show ?case by (simp add: List.map_filter_simps)
qed

lemma text_only_message:
  assumes "text_only m"
  shows "\<exists>v. toOpenAiMessage stringify d m = Inr [v] \<and> echoed_text v = Message_text m"
proof (cases "msg_role m")
  case RoleUser
  with assms have "list_all is_nonempty_text (msg_content m)" by (simp add: text_only_def)
  from user_parts [OF this, of "Some d"] RoleUser show ?thesis
    by (auto simp: toOpenAiMessage_def Message_text_def)
next
  case RoleModel
  with assms have "list_all is_text (msg_content m)" by (simp add: text_only_def)
  from no_toolRequests [OF this] RoleModel show ?thesis
    by (simp add: toOpenAiMessage_def)
next
  case RoleSystem
  then show ?thesis by (simp add: toOpenAiMessage_def)
next
  case RoleTool
  with assms show ?thesis by (simp add: text_only_def)
qed

lemma text_only_loop:
  "list_all text_only msgs \<Longrightarrow>
     \<exists>vs. toOpenAiMessages_loop stringify d msgs acc = Inr (acc @ vs) \<and>
          map echoed_text vs = map Message_text msgs"
proof (induction msgs arbitrary: acc)
  case Nil
  then show ?case by simp
next
  case (Cons m msgs)
  then have "text_only m" and rest: "list_all text_only msgs" by simp_all
  from text_only_message [OF this(1)] obtain v where
    v: "toOpenAiMessage stringify d m = Inr [v]" "echoed_text v = Message_text m" by blast
  from Cons.IH [OF rest, of "acc @ [v]"] obtain vs where
    "toOpenAiMessages_loop stringify d msgs (acc @ [v]) = Inr ((acc @ [v]) @ vs)"
    "map echoed_text vs = map Message_text msgs" by blast
  with v show ?case by (intro exI [of _ "v # vs"]) simp
qed

lemma echo_reduced:
  "fromOpenAiChoice parse (echo v) False =
     Inr (candidate 0 FinishStop [TextPart (Str (echoed_text v))])"
  by (simp add: fromOpenAiChoice_def echo_def toolRequestParts_of_def content_of_def
      finishReason_or_other_Str)

lemma mapE_echo:
  "mapE (\<lambda>c. fromOpenAiChoice parse c False) (map echo vs) =
     Inr (map (\<lambda>v. candidate 0 FinishStop [TextPart (Str (echoed_text v))]) vs)"
  by (induction vs) (simp_all add: echo_reduced)

lemma body_literal_head:
  "\<exists>tail. body_literal mapped ms request =
            (''model'', VString mapped) # (''messages'', VMessages ms) # tail \<and>
          ''messages'' \<notin> set (map fst tail)"
  by (simp add: body_literal_def)

lemma map_of_filter_skip:
  "k \<noteq> fst x \<Longrightarrow> map_of (filter P (x # xs)) k = map_of (filter P xs) k"
  by simp

lemma map_of_filter_hit:
  "P (k, v) \<Longrightarrow> map_of (filter P ((k, v) # xs)) k = Some v"
  by simp

lemma map_of_filter_none:
  "k \<notin> set (map fst xs) \<Longrightarrow> map_of (filter P xs) k = None"
  by (auto simp: map_of_eq_None_iff)

text \<open>The echoing client answers a built body with the echo of the converted messages.\<close>

lemma echo_of_built:
  assumes "toOpenAiRequestBody stringify modelName request = Inr body"
    and "toOpenAiMessages stringify (req_messages request)
           (config_field visualDetailLevel request) = Inr ms"
  shows "completion_choices (echo_completion body) = map echo ms"
proof -
  let ?keep = "\<lambda>kv. \<not> deleted (snd kv)"
  from assms(1) obtain built where
    b: "toOpenAiRequestBody_built stringify modelName request = Inr built"
    and body: "body = strip_body built"
    by (auto simp: toOpenAiRequestBody_def split: sum.splits)
  from b obtain mapped ms' extra where
    m: "toOpenAiMessages stringify (req_messages request)
           (config_field visualDetailLevel request) = Inr ms'"
    and built: "built = body_literal mapped ms' request @ extra"
    and extra: "extra = [] \<or> (\<exists>f. extra = [(''response_format'', VResponseFormat f)])"
    by (rule built_shape)
  from m assms(2) have ms: "ms' = ms" by simp
  obtain tail where
    lit: "body_literal mapped ms request =
            (''model'', VString mapped) # (''messages'', VMessages ms) # tail"
    and tail: "''messages'' \<notin> set (map fst tail)"
    using body_literal_head by blast
  from tail extra have rest: "''messages'' \<notin> set (map fst (tail @ extra))" by auto
  have shape: "body = filter ?keep
                 ((''model'', VString mapped) # (''messages'', VMessages ms) # (tail @ extra))"
    using body built ms lit by (simp only: strip_body_def append_Cons)
  have skip: "map_of body ''messages'' =
                map_of (filter ?keep ((''messages'', VMessages ms) # (tail @ extra))) ''messages''"
    unfolding shape by (rule map_of_filter_skip) simp
  show ?thesis
  proof (cases "ms = []")
    case True
    have "map_of (filter ?keep ((''messages'', VMessages ms) # (tail @ extra))) ''messages'' =
            map_of (filter ?keep (tail @ extra)) ''messages''"
      using True by (simp add: deleted_def)
    also have "\<dots> = None" using rest by (rule map_of_filter_none)
    finally show ?thesis using skip True by (simp add: echo_completion_def)
  next
    case False
    have "map_of (filter ?keep ((''messages'', VMessages ms) # (tail @ extra))) ''messages'' =
            Some (VMessages ms)"
      by (rule map_of_filter_hit) (simp add: deleted_def False)
    then show ?thesis using skip by (simp add: echo_completion_def)
  qed
qed

lemma build_without_format:
  assumes "SUPPORTED_GPT_MODELS modelName = Some model"
    and "toOpenAiMessages stringify (req_messages request)
           (config_field visualDetailLevel request) = Inr ms"
    and "requested_format request = None"
  shows "\<exists>body. toOpenAiRequestBody stringify modelName request = Inr body"
  using assms
  by (simp add: toOpenAiRequestBody_def built_own negotiate_response_format_def)

text \<open>
  Claim C8, amended. For every request that does not name the output format json and
  whose messages have the role user, model or system and hold text parts only, the texts
  of user messages being non-empty: whenever the vendor body is built, the runner, given
  the vendor that echoes the messages of that body, returns one candidate for each
  message of the request, in order; the content of the candidate is the single text part
  holding the concatenation, in order, of the texts of that message, and so is its text.
  The body is built when the model is supported and no format is requested.
\<close>

theorem text_round_trip:
  assumes "list_all text_only (req_messages request)"
    and "requested_format request \<noteq> Some FormatJson"
  shows "(\<forall>body. toOpenAiRequestBody stringify modelName request = Inr body \<longrightarrow>
            (\<exists>r. gptRunner stringify parse modelName echo_client request False = ([], Inr r) \<and>
                 map (\<lambda>c. msg_content (cand_message c)) (resp_candidates r) =
                   map (\<lambda>m. [TextPart (Str (concat (map part_text (msg_content m))))])
                     (req_messages request) \<and>
                 map (\<lambda>c. Message_text (cand_message c)) (resp_candidates r) =
                   map (\<lambda>m. concat (map part_text (msg_content m))) (req_messages request))) \<and>
         (SUPPORTED_GPT_MODELS modelName \<noteq> None \<and> requested_format request = None \<longrightarrow>
            (\<exists>body. toOpenAiRequestBody stringify modelName request = Inr body))"
proof (intro conjI allI impI)
  let ?d = "config_field visualDetailLevel request"
  from text_only_loop [OF assms(1), of stringify "case ?d of None \<Rightarrow> DetailAuto | Some d \<Rightarrow> d" "[]"]
  obtain vs where
    conv0: "toOpenAiMessages_loop stringify (case ?d of None \<Rightarrow> DetailAuto | Some d \<Rightarrow> d)
              (req_messages request) [] = Inr ([] @ vs)"
    and texts: "map echoed_text vs = map Message_text (req_messages request)"
    by blast
  from conv0 have conv: "toOpenAiMessages stringify (req_messages request) ?d = Inr vs"
    by (simp add: toOpenAiMessages_def)
  {
    fix body
    assume body: "toOpenAiRequestBody stringify modelName request = Inr body"
    let ?cs = "map (\<lambda>v. candidate 0 FinishStop [TextPart (Str (echoed_text v))]) vs"
    let ?r = "\<lparr>resp_candidates = ?cs, resp_usage = usage_of (echo_completion body),
               resp_custom = echo_completion body\<rparr>"
    have mode: "jsonMode_of request = False"
      using assms(2) by (simp add: jsonMode_of_def)
    have "mapE (\<lambda>c. fromOpenAiChoice parse c False) (map echo vs) = Inr ?cs"
      by (rule mapE_echo)
    then have "toResponseData parse request (echo_completion body) = Inr ?r"
      by (simp add: toResponseData_def mode echo_of_built [OF body conv])
    then have run: "gptRunner stringify parse modelName echo_client request False = ([], Inr ?r)"
      by (simp add: gptRunner_def body echo_client_def)
    have content: "map (\<lambda>c. msg_content (cand_message c)) ?cs =
                     map (\<lambda>v. [TextPart (Str (echoed_text v))]) vs"
      by (simp add: candidate_def comp_def)
    have "map (\<lambda>v. [TextPart (Str (echoed_text v))]) vs =
            map (\<lambda>t. [TextPart (Str t)]) (map echoed_text vs)"
      by (simp add: comp_def)
    also have "\<dots> = map (\<lambda>t. [TextPart (Str t)]) (map Message_text (req_messages request))"
      by (simp only: texts)
    also have "\<dots> = map (\<lambda>m. [TextPart (Str (concat (map part_text (msg_content m))))])
                       (req_messages request)"
      by (simp add: comp_def Message_text_def)
    finally have c1: "map (\<lambda>c. msg_content (cand_message c)) ?cs =
                        map (\<lambda>m. [TextPart (Str (concat (map part_text (msg_content m))))])
                          (req_messages request)"
      using content by simp
    have "map (\<lambda>c. Message_text (cand_message c)) ?cs = map echoed_text vs"
      by (simp add: candidate_def Message_text_def comp_def)
    also have "\<dots> = map (\<lambda>m. concat (map part_text (msg_content m))) (req_messages request)"
      by (simp add: texts Message_text_def)
    finally have c2: "map (\<lambda>c. Message_text (cand_message c)) ?cs =
                        map (\<lambda>m. concat (map part_text (msg_content m))) (req_messages request)" .
    from run c1 c2
    show "\<exists>r. gptRunner stringify parse modelName echo_client request False = ([], Inr r) \<and>
                 map (\<lambda>c. msg_content (cand_message c)) (resp_candidates r) =
                   map (\<lambda>m. [TextPart (Str (concat (map part_text (msg_content m))))])
                     (req_messages request) \<and>
                 map (\<lambda>c. Message_text (cand_message c)) (resp_candidates r) =
                   map (\<lambda>m. concat (map part_text (msg_content m))) (req_messages request)"
      by (intro exI [of _ ?r]) simp
  }
  assume "SUPPORTED_GPT_MODELS modelName \<noteq> None \<and> requested_format request = None"
  then obtain model where "SUPPORTED_GPT_MODELS modelName = Some model"
    and "requested_format request = None" by auto
  then show "\<exists>body. toOpenAiRequestBody stringify modelName request = Inr body"
    using conv by (intro build_without_format)
qed

lemma request_of_body:
  "toOpenAiMessages sample_stringify msgs None = Inr ms \<Longrightarrow>
   toOpenAiRequestBody sample_stringify ''gpt-4o'' (request_of msgs) =
     Inr (strip_body [(''model'', VString ''gpt-4o''), (''messages'', VMessages ms)])"
  by (simp add: toOpenAiRequestBody_def built_own [OF supported_gpt4o]
      request_of_def config_field_def mappedModelName_def gpt4o_def modelRef_def
      negotiate_response_format_def requested_format_def body_literal_def number_def
      text_value_def strip_body_def deleted_def)

lemma request_of_fields:
  "req_messages (request_of msgs) = msgs" "requested_format (request_of msgs) = None"
  "jsonMode_of (request_of msgs) = False"
  by (simp_all add: request_of_def requested_format_def jsonMode_of_def)

lemma example_conversation_messages:
  "toOpenAiMessages sample_stringify example_conversation None =
     Inr [SystemMessageParam ''Be brief'', UserMessageParam [ContentPartText ''Hello''],
          AssistantMessageParam ''Hi there'']"
  by (simp add: toOpenAiMessages_def toOpenAiMessage_def example_conversation_def Message_text_def
      List.map_filter_simps)

lemma example_conversation_body:
  "toOpenAiRequestBody sample_stringify ''gpt-4o'' (request_of example_conversation) =
     Inr [(''model'', VString ''gpt-4o''),
          (''messages'', VMessages [SystemMessageParam ''Be brief'',
                                    UserMessageParam [ContentPartText ''Hello''],
                                    AssistantMessageParam ''Hi there''])]"
  by (simp add: request_of_body [OF example_conversation_messages])
     (simp add: strip_body_def deleted_def)

theorem text_round_trip_witness:
  "list_all text_only (req_messages (request_of example_conversation)) \<and>
   requested_format (request_of example_conversation) = None \<and>
   gptRunner sample_stringify sample_parse ''gpt-4o'' echo_client
     (request_of example_conversation) False =
     ([], Inr \<lparr>resp_candidates =
                 [candidate 0 FinishStop [TextPart (Str ''Be brief'')],
                  candidate 0 FinishStop [TextPart (Str ''Hello'')],
                  candidate 0 FinishStop [TextPart (Str ''Hi there'')]],
               resp_usage = \<lparr>inputTokens = None, outputTokens = None, totalTokens = None\<rparr>,
               resp_custom =
                 \<lparr>completion_choices =
                    [echo (SystemMessageParam ''Be brief''),
                     echo (UserMessageParam [ContentPartText ''Hello'']),
                     echo (AssistantMessageParam ''Hi there'')],
                  completion_usage = None\<rparr>\<rparr>)"
  using text_round_trip [of "request_of example_conversation" sample_stringify "''gpt-4o''" sample_parse]
  by (simp add: gptRunner_def example_conversation_body echo_client_def echo_completion_def
        toResponseData_def request_of_fields echo_reduced usage_of_def)
     (simp add: example_conversation_def text_only_def)

text \<open>
  Claim C8 as first stated, for every request of text parts only, fails for a request that
  names the output format json: the runner then reduces the final completion with
  \<open>jsonMode\<close> true, the echoed text is parsed, and \<^verbatim>\<open>Hello\<close> is no JSON.
\<close>

theorem json_round_trip_counterexample:
  "list_all text_only (req_messages (example_request None (Some FormatJson))) \<and>
   gptRunner sample_stringify sample_parse ''gpt-4o'' echo_client
     (example_request None (Some FormatJson)) False = ([], Inl JsonSyntaxError)"
  by (simp add: gptRunner_def example_json_body echo_client_def echo_completion_def
        toResponseData_def)
     (simp add: example_request_def hello_def text_only_def requested_format_def jsonMode_of_def
        echo_def fromOpenAiChoice_def toolRequestParts_of_def content_of_def JSON_parse_def
        sample_parse_def)

text \<open>
  The amended claim leaves open the user message with an empty text, which the source
  rejects: the text is tested for truthiness, and the part, taken to hold neither text
  nor media, reaches the \<^verbatim>\<open>throw\<close>, though the documentation of
  \<^verbatim>\<open>toOpenAiTextAndMedia\<close> promises the error for unsupported fields only and the
  system and model roles accept the same part.
\<close>

lemma empty_user_text_rejected:
  "toOpenAiRequestBody sample_stringify ''gpt-4o'' (request_of empty_user_text) = Inl UnsupportedPart"
  by (simp add: toOpenAiRequestBody_def built_own [OF supported_gpt4o]
      request_of_def config_field_def toOpenAiMessages_def toOpenAiMessage_def empty_user_text_def)

end
